theory Spec2Isabelle
  imports Main
begin

section \<open>Exceptions, traces and results\<close>

text \<open>
  Both source files are Python. A call either returns a value or raises an exception, and
  on the way it may log or call an external service. A computation is therefore modelled
  as a pair: the trace it has produced so far (log entries for \<^verbatim>\<open>chat_logger.py\<close>,
  external calls for \<^verbatim>\<open>api.py\<close>) and either the exception raised (\<open>Inl\<close>)
  or the value returned (\<open>Inr\<close>).
\<close>

datatype exc =
    ValidationError
  | AssertionError
  | AttributeError
  | KeyError string
  | TypeError
  | ValueError
  | IndexError
  | JSONDecodeError
  | GeocoderTimedOut
  | GeocoderServiceError
  | SystemExit
  | OtherException string
  | HTTPException nat string

type_synonym ('t, 'a) io = "'t list \<times> (exc + 'a)"

definition io_return :: "'a \<Rightarrow> ('t, 'a) io" where
  "io_return x = ([], Inr x)"

definition io_raise :: "exc \<Rightarrow> ('t, 'a) io" where
  "io_raise e = ([], Inl e)"

definition io_emit :: "'t \<Rightarrow> ('t, unit) io" where
  "io_emit t = ([t], Inr ())"

definition io_lift :: "exc + 'a \<Rightarrow> ('t, 'a) io" where
  "io_lift r = ([], r)"

definition io_bind :: "('t, 'a) io \<Rightarrow> ('a \<Rightarrow> ('t, 'b) io) \<Rightarrow> ('t, 'b) io" where
  "io_bind m f =
     (case m of
        (ts, Inl e) \<Rightarrow> (ts, Inl e)
      | (ts, Inr a) \<Rightarrow> (case f a of (ts', r) \<Rightarrow> (ts @ ts', r)))"

section \<open>Strings\<close>

text \<open>
  \<^verbatim>\<open>str.lower()\<close> on ASCII text: the letters A to Z are mapped to a to z, every other
  character is left as it is. Python lowers letters outside ASCII as well; the model does
  not, so \<open>lower\<close> stands for \<^verbatim>\<open>str.lower()\<close> on ASCII strings only, and no
  theorem below depends on what it does to a particular string beyond the examples,
  which are ASCII. \<^verbatim>\<open>sub in s\<close> and \<^verbatim>\<open>s.startswith(sub)\<close> are the
  contiguous-substring and prefix tests.
\<close>

definition lower_char :: "char \<Rightarrow> char" where
  "lower_char c =
     (let n = (of_char c :: nat) in if 65 \<le> n \<and> n \<le> 90 then char_of (n + 32) else c)"

definition lower :: "string \<Rightarrow> string" where
  "lower s = map lower_char s"

definition startswith :: "string \<Rightarrow> string \<Rightarrow> bool" where
  "startswith s sub = (take (length sub) s = sub)"

fun str_contains :: "string \<Rightarrow> string \<Rightarrow> bool" where
  "str_contains [] sub = (sub = [])"
| "str_contains (c # s) sub = (startswith (c # s) sub \<or> str_contains s sub)"

section \<open>The usage quota governor: \<^verbatim>\<open>sweepai/utils/chat_logger.py\<close>\<close>

subsection \<open>Log entries\<close>

text \<open>
  A log entry is the level of the \<^verbatim>\<open>logger\<close> call and the pieces of its message:
  literal text and the values interpolated into it.
\<close>

datatype level = INFO | WARNING | ERROR | PRINT

datatype log_arg = LStr string | LInt int | LOpt "string option" | LExc exc

type_synonym log_entry = "level \<times> log_arg list"

subsection \<open>The ticket collection\<close>

text \<open>
  A document of the MongoDB collection \<^verbatim>\<open>tickets\<close>: the username it belongs to, the
  counters kept under period keys (\<^verbatim>\<open>"%m/%Y"\<close>, \<^verbatim>\<open>"%m/%Y/%d"\<close>,
  \<^verbatim>\<open>"%m/%Y_gpt3"\<close>) and the two tier flags, each of which may be absent. The
  collection is the list of its documents in natural order: \<^verbatim>\<open>find_one\<close>,
  \<^verbatim>\<open>update_one\<close> and \<^verbatim>\<open>result_list[0]\<close> all take the first document that
  matches. Operations on an initialised collection are taken to succeed; the store being
  unavailable is \<^verbatim>\<open>ticket_collection is None\<close>, as in the source.
\<close>

record document =
  doc_username :: string
  doc_counters :: "string \<rightharpoonup> int"
  doc_is_paying_user :: "bool option"
  doc_is_trial_user :: "bool option"

type_synonym collection = "document list"

definition find_one :: "collection \<Rightarrow> string \<Rightarrow> document option" where
  "find_one coll username = List.find (\<lambda>d. doc_username d = username) coll"

text \<open>
  \<^verbatim>\<open>aggregate([{"$match": {"username": username}}, {"$project": {tracking_date: 1, "_id": 0}}])\<close>:
  the matching documents, each cut down to the one projected field.
\<close>

definition aggregate :: "collection \<Rightarrow> string \<Rightarrow> string \<Rightarrow> (string \<rightharpoonup> int) list" where
  "aggregate coll username tracking_date =
     map (\<lambda>d. doc_counters d |` {tracking_date}) (filter (\<lambda>d. doc_username d = username) coll)"

text \<open>\<^verbatim>\<open>{"$inc": inc}\<close> applied to the counters: an absent field counts as 0.\<close>

definition inc_fields :: "(string \<rightharpoonup> int) \<Rightarrow> (string \<rightharpoonup> int) \<Rightarrow> (string \<rightharpoonup> int)" where
  "inc_fields counters inc =
     (\<lambda>k. case inc k of
             None \<Rightarrow> counters k
           | Some i \<Rightarrow> Some ((case counters k of None \<Rightarrow> 0 | Some n \<Rightarrow> n) + i))"

text \<open>
  \<^verbatim>\<open>update_one({"username": username}, {"$inc": inc}, upsert=True)\<close>: the first
  matching document is updated; when none matches, a new document is inserted.
\<close>

fun update_one :: "collection \<Rightarrow> string \<Rightarrow> (string \<rightharpoonup> int) \<Rightarrow> collection" where
  "update_one [] username inc =
     [\<lparr>doc_username = username, doc_counters = inc_fields Map.empty inc,
       doc_is_paying_user = None, doc_is_trial_user = None\<rparr>]"
| "update_one (d # ds) username inc =
     (if doc_username d = username
      then d\<lparr>doc_counters := inc_fields (doc_counters d) inc\<rparr> # ds
      else d # update_one ds username inc)"

subsection \<open>The logger object\<close>

text \<open>
  The fields of \<^verbatim>\<open>ChatLogger\<close> that the quota code reads: \<^verbatim>\<open>data\<close> (a dict),
  the handle on the ticket collection (\<open>None\<close> when \<^verbatim>\<open>initialize_mongodb\<close> did not
  connect) and the two period keys fixed when the object is built. The chat-history
  fields (\<^verbatim>\<open>chat_collection\<close>, \<^verbatim>\<open>expiration\<close>, \<^verbatim>\<open>index\<close>) play no part in
  the quota decision and are left out.
\<close>

record ChatLogger =
  data :: "string \<rightharpoonup> string"
  ticket_collection :: "collection option"
  current_date :: string
  current_month :: string

definition not_exist :: log_entry where
  "not_exist = (ERROR, [LStr ''Ticket Collection Does Not Exist''])"

text \<open>\<^verbatim>\<open>self.data[key]\<close> raises \<^verbatim>\<open>KeyError\<close> on a missing key.\<close>

definition data_item :: "ChatLogger \<Rightarrow> string \<Rightarrow> (log_entry, string) io" where
  "data_item self key =
     (case data self key of None \<Rightarrow> io_raise (KeyError key) | Some v \<Rightarrow> io_return v)"

definition add_successful_ticket :: "ChatLogger \<Rightarrow> bool \<Rightarrow> (log_entry, ChatLogger) io" where
  "add_successful_ticket self gpt3 =
     (case ticket_collection self of
        None \<Rightarrow> ([not_exist], Inr self)
      | Some coll \<Rightarrow>
          io_bind (data_item self ''username'') (\<lambda>username0.
          io_bind (case data self ''assignee'' of
                     Some a \<Rightarrow> io_return a
                   | None \<Rightarrow> io_return username0) (\<lambda>username.
          let inc = (if gpt3
                     then [current_month self @ ''_gpt3'' \<mapsto> 1]
                     else [current_month self \<mapsto> 1, current_date self \<mapsto> 1]);
              self' = self\<lparr>ticket_collection := Some (update_one coll username inc)\<rparr>
          in io_bind (io_emit (INFO, [LStr ''Added Successful Ticket for '', LStr username]))
               (\<lambda>_. io_return self'))))"

text \<open>
  The read of \<^verbatim>\<open>get_ticket_count\<close>: the aggregation, then
  \<^verbatim>\<open>result_list[0].get(tracking_date, 0) if len(result_list) > 0 else 0\<close>.
\<close>

definition stored_count :: "collection \<Rightarrow> string \<Rightarrow> string \<Rightarrow> int" where
  "stored_count coll username tracking_date =
     (let result_list = aggregate coll username tracking_date
      in case result_list of
           [] \<Rightarrow> 0
         | r # _ \<Rightarrow> (case r tracking_date of None \<Rightarrow> 0 | Some n \<Rightarrow> n))"

definition get_ticket_count :: "ChatLogger \<Rightarrow> bool \<Rightarrow> bool \<Rightarrow> (log_entry, int) io" where
  "get_ticket_count self use_date gpt3 =
     (case ticket_collection self of
        None \<Rightarrow> ([not_exist], Inr 0)
      | Some coll \<Rightarrow>
          io_bind (data_item self ''username'') (\<lambda>username.
          let tracking_date0 = (if use_date then current_date self else current_month self);
              tracking_date = (if gpt3 then current_month self @ ''_gpt3'' else tracking_date0);
              ticket_count = stored_count coll username tracking_date
          in io_bind (io_emit (INFO, [LStr ''Ticket Count for '', LStr username, LStr '' '',
                                       LInt ticket_count]))
               (\<lambda>_. io_return ticket_count)))"

text \<open>
  \<^verbatim>\<open>add_successful_ticket\<close> called \<open>n\<close> times in a row on the same logger object,
  each call working on the store the one before it left.
\<close>

fun add_successful_tickets :: "nat \<Rightarrow> ChatLogger \<Rightarrow> bool \<Rightarrow> (log_entry, ChatLogger) io" where
  "add_successful_tickets 0 self gpt3 = io_return self"
| "add_successful_tickets (Suc n) self gpt3 =
     io_bind (add_successful_ticket self gpt3) (\<lambda>self'. add_successful_tickets n self' gpt3)"

definition is_paying_user :: "ChatLogger \<Rightarrow> (log_entry, bool) io" where
  "is_paying_user self =
     (case ticket_collection self of
        None \<Rightarrow> ([not_exist], Inr False)
      | Some coll \<Rightarrow>
          io_bind (data_item self ''username'') (\<lambda>username.
          case find_one coll username of
            None \<Rightarrow> io_return False
          | Some result \<Rightarrow>
              (case doc_is_paying_user result of None \<Rightarrow> io_return False | Some b \<Rightarrow> io_return b)))"

definition is_trial_user :: "ChatLogger \<Rightarrow> (log_entry, bool) io" where
  "is_trial_user self =
     (case ticket_collection self of
        None \<Rightarrow> ([not_exist], Inr False)
      | Some coll \<Rightarrow>
          io_bind (data_item self ''username'') (\<lambda>username.
          case find_one coll username of
            None \<Rightarrow> io_return False
          | Some result \<Rightarrow>
              (case doc_is_trial_user result of None \<Rightarrow> io_return False | Some b \<Rightarrow> io_return b)))"

subsection \<open>Location check\<close>

text \<open>
  What the quota code reaches outside the repository: the hosting-platform client
  \<^verbatim>\<open>g\<close> (here \<^verbatim>\<open>g.get_user(username).location\<close>, which raises or gives the declared
  location, possibly unset), the geocoder \<^verbatim>\<open>Nominatim(...).geocode(loc_user, exactly_one=True)\<close>
  (which raises, or gives no match, or gives a location whose \<^verbatim>\<open>raw\<close> dict may hold a
  \<^verbatim>\<open>display_name\<close>), and the configured list \<^verbatim>\<open>SUPPORT_COUNTRY\<close>. They are
  parameters of the model.
\<close>

record location =
  raw :: "string \<rightharpoonup> string"

type_synonym github = "string \<Rightarrow> exc + string option"

record geo =
  SUPPORT_COUNTRY :: "string list"
  geocode :: "string option \<Rightarrow> exc + location option"

text \<open>
  \<^verbatim>\<open>is_supported_country\<close>: the loop body reads \<^verbatim>\<open>loc.raw\<close> (an
  \<^verbatim>\<open>AttributeError\<close> when the geocoder found no match and \<^verbatim>\<open>loc\<close> is None) and
  calls \<^verbatim>\<open>.lower()\<close> on \<^verbatim>\<open>raw.get("display_name")\<close> (an \<^verbatim>\<open>AttributeError\<close>
  when the key is missing). With an empty list the body never runs.
\<close>

fun is_supported_country :: "string list \<Rightarrow> location option \<Rightarrow> exc + bool" where
  "is_supported_country [] loc = Inr False"
| "is_supported_country (c # cs) loc =
     (case loc of
        None \<Rightarrow> Inl AttributeError
      | Some l \<Rightarrow>
          (case raw l ''display_name'' of
             None \<Rightarrow> Inl AttributeError
           | Some display_name \<Rightarrow>
               if str_contains (lower display_name) (lower c) then Inr True
               else is_supported_country cs loc))"

text \<open>
  The body of the \<^verbatim>\<open>try\<close> of \<^verbatim>\<open>check_location_and_ticket_count\<close>: it returns
  \<open>Some b\<close> when the function returns \<open>b\<close> from inside the \<^verbatim>\<open>try\<close>, and
  \<open>None\<close> when control leaves the \<^verbatim>\<open>try\<close> at its end.
\<close>

definition location_try :: "geo \<Rightarrow> ChatLogger \<Rightarrow> github \<Rightarrow> (log_entry, bool option) io" where
  "location_try G self g =
     io_bind (data_item self ''username'') (\<lambda>username.
     io_bind (io_lift (g username)) (\<lambda>loc_user.
     io_bind (io_lift (geocode G loc_user)) (\<lambda>loc.
     io_bind (io_lift (is_supported_country (SUPPORT_COUNTRY G) loc)) (\<lambda>supported.
     if \<not> supported then
       io_bind (io_emit (PRINT, [LStr ''G EXCEPTION'', LOpt loc_user])) (\<lambda>_.
       io_bind (get_ticket_count self False False) (\<lambda>monthly.
       if monthly \<ge> 5 then io_return (Some True)
       else io_bind (get_ticket_count self True False) (\<lambda>daily.
            io_return (Some (daily \<ge> 1)))))
     else io_return None))))"

text \<open>The \<^verbatim>\<open>except\<close> clauses: what is logged for a caught exception.\<close>

definition location_except :: "exc \<Rightarrow> log_entry list" where
  "location_except e =
     (if e = GeocoderTimedOut then
        [(WARNING, [LStr ''Geolocation service timed out'']), (WARNING, [LExc e])]
      else if e = GeocoderServiceError then
        [(WARNING, [LStr ''Geolocation service error occurred'']), (WARNING, [LExc e])]
      else
        [(WARNING, [LStr ''An unknown error occurred during geolocation'']), (WARNING, [LExc e])])"

text \<open>The last line of the function, reached when the \<^verbatim>\<open>try\<close> statement did not return.\<close>

definition location_default :: "ChatLogger \<Rightarrow> (log_entry, bool) io" where
  "location_default self =
     io_bind (get_ticket_count self False False) (\<lambda>monthly.
     if monthly \<ge> 5 then io_return True
     else io_bind (get_ticket_count self True False) (\<lambda>daily. io_return (daily > 3)))"

definition check_location_and_ticket_count ::
    "geo \<Rightarrow> ChatLogger \<Rightarrow> github \<Rightarrow> (log_entry, bool) io" where
  "check_location_and_ticket_count G self g =
     (case location_try G self g of
        (lg, Inr (Some b)) \<Rightarrow> (lg, Inr b)
      | (lg, Inr None) \<Rightarrow> io_bind (lg, Inr ()) (\<lambda>_. location_default self)
      | (lg, Inl e) \<Rightarrow>
          if e = SystemExit then (lg, Inl SystemExit)
          else io_bind (lg @ location_except e, Inr ()) (\<lambda>_. location_default self))"

text \<open>
  The outcome of the three steps of the \<^verbatim>\<open>try\<close> that come before its \<^verbatim>\<open>if\<close>:
  the declared location, the geocoder's answer for it, the support test on that answer.
  It is the value that \<open>location_try\<close> branches on, and is used to state lemmas.
\<close>

definition support_check :: "geo \<Rightarrow> github \<Rightarrow> string \<Rightarrow> exc + bool" where
  "support_check G g username =
     (case g username of
        Inl e \<Rightarrow> Inl e
      | Inr loc_user \<Rightarrow>
          (case geocode G loc_user of
             Inl e \<Rightarrow> Inl e
           | Inr loc \<Rightarrow> is_supported_country (SUPPORT_COUNTRY G) loc))"

definition use_faster_model :: "geo \<Rightarrow> ChatLogger \<Rightarrow> github \<Rightarrow> (log_entry, bool) io" where
  "use_faster_model G self g =
     (case ticket_collection self of
        None \<Rightarrow> ([not_exist], Inr True)
      | Some _ \<Rightarrow>
          io_bind (is_paying_user self) (\<lambda>paying.
          if paying then
            io_bind (get_ticket_count self False False) (\<lambda>n. io_return (n \<ge> 500))
          else
            io_bind (is_trial_user self) (\<lambda>trial.
            if trial then
              io_bind (get_ticket_count self False False) (\<lambda>n. io_return (n \<ge> 15))
            else check_location_and_ticket_count G self g)))"

section \<open>The event dispatcher: \<^verbatim>\<open>sweepai/api.py\<close>\<close>

subsection \<open>Payloads\<close>

text \<open>
  The decoded JSON body of a request. A JSON object is the Python dict it decodes to,
  kept as an association list and read with \<open>map_of\<close>; Python's \<^verbatim>\<open>None\<close> is
  \<open>JNull\<close>.
\<close>

datatype json =
    JNull
  | JBool bool
  | JInt int
  | JStr string
  | JList "json list"
  | JObj "(string \<times> json) list"

type_synonym pydict = "(string \<times> json) list"

text \<open>\<^verbatim>\<open>d.get(key, None)\<close> on a dict.\<close>

definition dict_get :: "pydict \<Rightarrow> string \<Rightarrow> json" where
  "dict_get d key = (case map_of d key of None \<Rightarrow> JNull | Some v \<Rightarrow> v)"

text \<open>
  \<^verbatim>\<open>v[key]\<close> with a string key: a \<^verbatim>\<open>KeyError\<close> on a dict without the key, a
  \<^verbatim>\<open>TypeError\<close> on anything that is not a dict.
\<close>

definition subscript :: "json \<Rightarrow> string \<Rightarrow> exc + json" where
  "subscript v key =
     (case v of
        JObj d \<Rightarrow> (case map_of d key of None \<Rightarrow> Inl (KeyError key) | Some x \<Rightarrow> Inr x)
      | _ \<Rightarrow> Inl TypeError)"

text \<open>\<^verbatim>\<open>v == True\<close>: in Python the integer 1 equals \<^verbatim>\<open>True\<close> as well.\<close>

definition eq_True :: "json \<Rightarrow> bool" where
  "eq_True v = (v = JBool True \<or> v = JInt 1)"

text \<open>\<^verbatim>\<open>s.split(sep)\<close> for a one-character separator.\<close>

fun split :: "string \<Rightarrow> char \<Rightarrow> string list" where
  "split [] sep = [[]]"
| "split (c # s) sep =
     (if c = sep then [] # split s sep
      else (case split s sep of [] \<Rightarrow> [[c]] | w # ws \<Rightarrow> (c # w) # ws))"

text \<open>\<^verbatim>\<open>x or ""\<close> for an optional string.\<close>

definition or_empty :: "string option \<Rightarrow> string" where
  "or_empty x = (case x of None \<Rightarrow> [] | Some s \<Rightarrow> s)"

subsection \<open>Typed requests\<close>

text \<open>
  The pydantic models of \<^verbatim>\<open>sweepai.events\<close> are not part of the sources at hand.
  The records below hold the fields that \<^verbatim>\<open>webhook\<close> reads. A field that the handler
  tests for \<^verbatim>\<open>None\<close>, for truth, or defaults with \<^verbatim>\<open>or ""\<close> is optional
  (\<^verbatim>\<open>issue\<close>, \<^verbatim>\<open>body\<close>, \<^verbatim>\<open>description\<close>, \<^verbatim>\<open>pull_request\<close> of an issue), and so
  is \<^verbatim>\<open>merged_by\<close>, which the hosting platform leaves null on a pull request closed
  without a merge; every other field is required. The \<^verbatim>\<open>pull_request\<close> of an
  issue is only tested for truth, and a sub-object that is present counts as true.
  Validation itself
  (\<^verbatim>\<open>IssueRequest(**request_dict)\<close> and its siblings) is a parameter of the model: it
  gives the typed request, or \<open>None\<close> for a \<^verbatim>\<open>ValidationError\<close>.
\<close>

record User =
  login :: string
  user_type :: string

record Label =
  label_name :: string

record Repository =
  full_name :: string
  description :: "string option"

record Installation =
  inst_id :: int

record Issue =
  issue_title :: string
  issue_body :: "string option"
  issue_number :: int
  issue_html_url :: string
  issue_user :: User
  issue_labels :: "Label list"
  issue_pull_request :: "unit option"

record Comment =
  comment_id :: int
  comment_body :: string
  comment_user :: User

record IssueRequest =
  issue :: "Issue option"
  repository :: Repository
  installation :: Installation

record IssueCommentRequest = IssueRequest +
  comment :: Comment

record ReviewComment =
  rc_body :: string
  rc_path :: string
  rc_original_line :: int
  rc_user :: User

record Head =
  ref :: string

record ReviewedPullRequest =
  rpr_head :: Head
  rpr_number :: int

record CommentCreatedRequest =
  cc_comment :: ReviewComment
  cc_pull_request :: ReviewedPullRequest
  cc_repository :: Repository
  cc_installation :: Installation

record CheckRunPullRequest =
  crp_number :: int

record CheckRun =
  pull_requests :: "CheckRunPullRequest list"

record CheckRunCompleted =
  check_run :: CheckRun
  cr_repository :: Repository
  cr_sender :: User
  cr_installation :: Installation

record ReposAddedRequest =
  ra_installation :: Installation
  repositories_added :: "Repository list"

record InstallationCreatedRequest =
  ic_installation :: Installation
  repositories :: "Repository list"

record ClosedPullRequest =
  cp_user :: User
  merged_by :: "User option"

record PRRequest =
  pr_pull_request :: ClosedPullRequest
  pr_repository :: Repository

subsection \<open>External calls\<close>

text \<open>
  The positional arguments of \<^verbatim>\<open>handle_ticket.spawn\<close> and the keyword arguments of
  \<^verbatim>\<open>handle_comment.spawn\<close>, as the handler forwards them. An argument that can be
  \<^verbatim>\<open>None\<close> at the call is an option.
\<close>

record ticket_args =
  arg_title :: string
  arg_body :: "string option"
  arg_number :: int
  arg_html_url :: string
  arg_login :: string
  arg_full_name :: string
  arg_description :: "string option"
  arg_installation_id :: int
  arg_comment_id :: "int option"

record comment_args =
  repo_full_name :: string
  repo_description :: "string option"
  comment_text :: string
  pr_path :: "string option"
  pr_line_position :: "int option"
  username :: string
  installation_id :: int
  pr_number :: int

datatype prop_value = PStr string | PInt int | PStrs "string list"

text \<open>
  Every call that leaves the process: the hosting-platform client, the task functions,
  analytics and indexing. The trace of a run of \<^verbatim>\<open>webhook\<close> is the list of the calls
  that were made and came back. Log lines are not part of it.
\<close>

datatype effect =
    Get_github_client int
  | Get_repo string
  | Get_labels string
  | Create_label string string string string
  | Get_issue string int
  | Add_to_labels string int string
  | Handle_ticket_spawn ticket_args
  | Handle_comment_spawn comment_args
  | Handle_check_suite_call CheckRunCompleted
  | Posthog_capture string string "(string \<times> prop_value) list"
  | Index_full_repository string int
  | Update_index_spawn json json

text \<open>
  What \<^verbatim>\<open>webhook\<close> depends on and the two files do not hold: the constants of
  \<^verbatim>\<open>sweepai.utils.constants\<close>, the validators, the labels a repository has, the
  text that \<^verbatim>\<open>handle_check_suite.call\<close> returns, and whether an external call
  raises (\<open>raises E x = Some e\<close>) instead of coming back.
\<close>

record env =
  SWEEP_LOGIN :: string
  LABEL_NAME :: string
  LABEL_COLOR :: string
  LABEL_DESCRIPTION :: string
  validate_IssueRequest :: "pydict \<Rightarrow> IssueRequest option"
  validate_IssueCommentRequest :: "pydict \<Rightarrow> IssueCommentRequest option"
  validate_CommentCreatedRequest :: "pydict \<Rightarrow> CommentCreatedRequest option"
  validate_CheckRunCompleted :: "pydict \<Rightarrow> CheckRunCompleted option"
  validate_ReposAddedRequest :: "pydict \<Rightarrow> ReposAddedRequest option"
  validate_InstallationCreatedRequest :: "pydict \<Rightarrow> InstallationCreatedRequest option"
  validate_PRRequest :: "pydict \<Rightarrow> PRRequest option"
  label_names :: "string \<Rightarrow> string list"
  check_suite_logs :: "CheckRunCompleted \<Rightarrow> string"
  raises :: "effect \<Rightarrow> exc option"

definition construct :: "'a option \<Rightarrow> (effect, 'a) io" where
  "construct r = (case r of None \<Rightarrow> io_raise ValidationError | Some x \<Rightarrow> io_return x)"

definition perform :: "env \<Rightarrow> effect \<Rightarrow> (effect, unit) io" where
  "perform E x = (case raises E x of Some e \<Rightarrow> io_raise e | None \<Rightarrow> io_emit x)"

text \<open>\<^verbatim>\<open>organization, repo_name = s.split("/")\<close>: unpacking needs exactly two parts.\<close>

definition unpack2 :: "string list \<Rightarrow> (effect, string \<times> string) io" where
  "unpack2 parts = (case parts of [a, b] \<Rightarrow> io_return (a, b) | _ \<Rightarrow> io_raise ValueError)"

subsection \<open>The arms of the \<^verbatim>\<open>match\<close> statement\<close>

text \<open>\<^verbatim>\<open>"sweep" in [label.name.lower() for label in issue.labels]\<close>\<close>

definition has_sweep_label :: "Issue \<Rightarrow> bool" where
  "has_sweep_label iss = (''sweep'' \<in> set (map (\<lambda>label. lower (label_name label)) (issue_labels iss)))"

definition case_issues_opened :: "env \<Rightarrow> pydict \<Rightarrow> (effect, unit) io" where
  "case_issues_opened E request_dict =
     io_bind (construct (validate_IssueRequest E request_dict)) (\<lambda>request.
     case issue request of
       None \<Rightarrow> io_raise AttributeError
     | Some iss \<Rightarrow>
         let issue_title_lower = lower (issue_title iss);
             repo_name = full_name (repository request)
         in
         if startswith issue_title_lower ''sweep'' \<or> str_contains issue_title_lower ''sweep:''
         then
           io_bind (perform E (Get_github_client (inst_id (installation request)))) (\<lambda>_.
           io_bind (perform E (Get_repo repo_name)) (\<lambda>_.
           io_bind (perform E (Get_labels repo_name)) (\<lambda>_.
           io_bind (if LABEL_NAME E \<notin> set (label_names E repo_name)
                    then perform E (Create_label repo_name (LABEL_NAME E) (LABEL_COLOR E)
                                      (LABEL_DESCRIPTION E))
                    else io_return ()) (\<lambda>_.
           io_bind (perform E (Get_issue repo_name (issue_number iss))) (\<lambda>_.
           perform E (Add_to_labels repo_name (issue_number iss) (LABEL_NAME E)))))))
         else io_return ())"

text \<open>
  The two assignments \<^verbatim>\<open>request.issue.body = request.issue.body or ""\<close> and
  \<^verbatim>\<open>request.repository.description = request.repository.description or ""\<close>, then the
  arguments read back from the request.
\<close>

definition normalize_issue :: "Issue \<Rightarrow> Issue" where
  "normalize_issue iss = iss\<lparr>issue_body := Some (or_empty (issue_body iss))\<rparr>"

definition normalize_repository :: "Repository \<Rightarrow> Repository" where
  "normalize_repository repo = repo\<lparr>description := Some (or_empty (description repo))\<rparr>"

definition ticket_of :: "Issue \<Rightarrow> Repository \<Rightarrow> Installation \<Rightarrow> int option \<Rightarrow> ticket_args" where
  "ticket_of iss repo inst cid =
     \<lparr>arg_title = issue_title iss, arg_body = issue_body iss, arg_number = issue_number iss,
      arg_html_url = issue_html_url iss, arg_login = login (issue_user iss),
      arg_full_name = full_name repo, arg_description = description repo,
      arg_installation_id = inst_id inst, arg_comment_id = cid\<rparr>"

definition case_issues_labeled :: "env \<Rightarrow> pydict \<Rightarrow> (effect, unit) io" where
  "case_issues_labeled E request_dict =
     io_bind (construct (validate_IssueRequest E request_dict)) (\<lambda>request.
     case issue request of
       None \<Rightarrow> io_return ()
     | Some iss \<Rightarrow>
         if has_sweep_label iss then
           perform E (Handle_ticket_spawn
             (ticket_of (normalize_issue iss) (normalize_repository (repository request))
                (installation request) None))
         else io_return ())"

definition case_issue_comment_created :: "env \<Rightarrow> pydict \<Rightarrow> (effect, unit) io" where
  "case_issue_comment_created E request_dict =
     io_bind (construct (validate_IssueCommentRequest E request_dict)) (\<lambda>request.
     case issue request of
       None \<Rightarrow> io_raise AttributeError
     | Some iss \<Rightarrow>
         if has_sweep_label iss \<and> user_type (comment_user (comment request)) = ''User'' then
           perform E (Handle_ticket_spawn
             (ticket_of (normalize_issue iss) (normalize_repository (repository request))
                (installation request) (Some (comment_id (comment request)))))
         else if issue_pull_request iss \<noteq> None \<and> login (issue_user iss) = SWEEP_LOGIN E
                 \<and> user_type (comment_user (comment request)) = ''User'' then
           perform E (Handle_comment_spawn
             \<lparr>repo_full_name = full_name (repository request),
              repo_description = description (repository request),
              comment_text = comment_body (comment request),
              pr_path = None,
              pr_line_position = None,
              username = login (comment_user (comment request)),
              installation_id = inst_id (installation request),
              pr_number = issue_number iss\<rparr>)
         else io_return ())"

definition case_pull_request_review_comment_created :: "env \<Rightarrow> pydict \<Rightarrow> (effect, unit) io" where
  "case_pull_request_review_comment_created E request_dict =
     io_bind (construct (validate_CommentCreatedRequest E request_dict)) (\<lambda>request.
     if str_contains (lower (ref (rpr_head (cc_pull_request request)))) ''sweep/'' then
       perform E (Handle_comment_spawn
         \<lparr>repo_full_name = full_name (cc_repository request),
          repo_description = description (cc_repository request),
          comment_text = rc_body (cc_comment request),
          pr_path = Some (rc_path (cc_comment request)),
          pr_line_position = Some (rc_original_line (cc_comment request)),
          username = login (rc_user (cc_comment request)),
          installation_id = inst_id (cc_installation request),
          pr_number = rpr_number (cc_pull_request request)\<rparr>)
     else io_return ())"

text \<open>
  \<^verbatim>\<open>check_run.pull_requests[0]\<close> is evaluated with the other arguments, before the
  spawn: an \<^verbatim>\<open>IndexError\<close> on an empty list.
\<close>

definition case_check_run_completed :: "env \<Rightarrow> pydict \<Rightarrow> (effect, unit) io" where
  "case_check_run_completed E request_dict =
     io_bind (construct (validate_CheckRunCompleted E request_dict)) (\<lambda>request.
     io_bind (perform E (Handle_check_suite_call request)) (\<lambda>_.
     let logs = check_suite_logs E request in
     case pull_requests (check_run request) of
       [] \<Rightarrow> io_raise IndexError
     | p # _ \<Rightarrow>
         perform E (Handle_comment_spawn
           \<lparr>repo_full_name = full_name (cr_repository request),
            repo_description = description (cr_repository request),
            comment_text = logs,
            pr_path = None,
            pr_line_position = None,
            username = login (cr_sender request),
            installation_id = inst_id (cr_installation request),
            pr_number = crp_number p\<rparr>)))"

fun install_repos :: "env \<Rightarrow> int \<Rightarrow> Repository list \<Rightarrow> (effect, unit) io" where
  "install_repos E iid [] = io_return ()"
| "install_repos E iid (repo # repos) =
     io_bind (unpack2 (split (full_name repo) (CHR ''/''))) (\<lambda>(organization, repo_name).
     io_bind (perform E (Posthog_capture organization ''installed_repository''
                [(''repo_name'', PStr repo_name), (''organization'', PStr organization),
                 (''repo_full_name'', PStr (full_name repo))])) (\<lambda>_.
     io_bind (perform E (Index_full_repository (full_name repo) iid)) (\<lambda>_.
     install_repos E iid repos)))"

definition case_installation_repositories_added :: "env \<Rightarrow> pydict \<Rightarrow> (effect, unit) io" where
  "case_installation_repositories_added E request_dict =
     io_bind (construct (validate_ReposAddedRequest E request_dict)) (\<lambda>repos_added_request.
     let iid = inst_id (ra_installation repos_added_request);
         metadata = [(''installation_id'', PInt iid),
                     (''repositories'', PStrs (map full_name (repositories_added repos_added_request)))]
     in
     io_bind (perform E (Posthog_capture ''installation_repositories'' ''started'' metadata)) (\<lambda>_.
     install_repos E iid (repositories_added repos_added_request)))"

fun index_repos :: "env \<Rightarrow> int \<Rightarrow> Repository list \<Rightarrow> (effect, unit) io" where
  "index_repos E iid [] = io_return ()"
| "index_repos E iid (repo # repos) =
     io_bind (perform E (Index_full_repository (full_name repo) iid)) (\<lambda>_.
     index_repos E iid repos)"

definition case_installation_created :: "env \<Rightarrow> pydict \<Rightarrow> (effect, unit) io" where
  "case_installation_created E request_dict =
     io_bind (construct (validate_InstallationCreatedRequest E request_dict)) (\<lambda>repos_added_request.
     index_repos E (inst_id (ic_installation repos_added_request))
       (repositories repos_added_request))"

text \<open>
  \<^verbatim>\<open>update_index.spawn(request_dict["repository"]["full_name"], installation_id=request_dict["installation"]["id"])\<close>:
  both arguments are read from the raw dict.
\<close>

definition spawn_update_index :: "env \<Rightarrow> pydict \<Rightarrow> (effect, unit) io" where
  "spawn_update_index E request_dict =
     io_bind (io_lift (subscript (JObj request_dict) ''repository'')) (\<lambda>r.
     io_bind (io_lift (subscript r ''full_name'')) (\<lambda>name.
     io_bind (io_lift (subscript (JObj request_dict) ''installation'')) (\<lambda>i.
     io_bind (io_lift (subscript i ''id'')) (\<lambda>iid.
     perform E (Update_index_spawn name iid)))))"

definition case_pull_request_closed :: "env \<Rightarrow> pydict \<Rightarrow> (effect, unit) io" where
  "case_pull_request_closed E request_dict =
     io_bind (construct (validate_PRRequest E request_dict)) (\<lambda>pr_request.
     io_bind (unpack2 (split (full_name (pr_repository pr_request)) (CHR ''/'')))
       (\<lambda>(organization, repo_name).
     let commit_author = login (cp_user (pr_pull_request pr_request)) in
     io_bind (case merged_by (pr_pull_request pr_request) of
                None \<Rightarrow> io_raise AttributeError
              | Some u \<Rightarrow> io_return (login u)) (\<lambda>merged_by.
     io_bind (if SWEEP_LOGIN E = commit_author
              then perform E (Posthog_capture merged_by ''merged_sweep_pr''
                     [(''repo_name'', PStr repo_name), (''organization'', PStr organization),
                      (''repo_full_name'', PStr (full_name (pr_repository pr_request))),
                      (''username'', PStr merged_by)])
              else io_return ()) (\<lambda>_.
     spawn_update_index E request_dict))))"

definition case_push :: "env \<Rightarrow> string \<Rightarrow> pydict \<Rightarrow> (effect, unit) io" where
  "case_push E event request_dict =
     (if event \<noteq> ''pull_request'' then spawn_update_index E request_dict
      else
        io_bind (io_lift (subscript (JObj request_dict) ''base'')) (\<lambda>base.
        io_bind (io_lift (subscript base ''merged'')) (\<lambda>merged.
        if eq_True merged then spawn_update_index E request_dict else io_return ())))"

subsection \<open>The handler\<close>

definition pong :: json where
  "pong = JObj [(''message'', JStr ''pong'')]"

definition success :: json where
  "success = JObj [(''success'', JBool True)]"

text \<open>
  \<^verbatim>\<open>match event, request_dict.get("action", None)\<close>: the arms in the order of the
  source. An arm that runs to its end gives \<open>None\<close>; the \<^verbatim>\<open>ping\<close> arm returns
  from the function.
\<close>

definition no_return :: "(effect, unit) io \<Rightarrow> (effect, json option) io" where
  "no_return m = io_bind m (\<lambda>_. io_return None)"

definition dispatch :: "env \<Rightarrow> string \<Rightarrow> json \<Rightarrow> pydict \<Rightarrow> (effect, json option) io" where
  "dispatch E event action request_dict =
     (if event = ''issues'' \<and> action = JStr ''opened'' then
        no_return (case_issues_opened E request_dict)
      else if event = ''issues'' \<and> action = JStr ''labeled'' then
        no_return (case_issues_labeled E request_dict)
      else if event = ''issue_comment'' \<and> action = JStr ''created'' then
        no_return (case_issue_comment_created E request_dict)
      else if event = ''pull_request_review_comment'' \<and> action = JStr ''created'' then
        no_return (case_pull_request_review_comment_created E request_dict)
      else if event = ''pull_request_review'' \<and> action = JStr ''submitted'' then
        io_return None
      else if event = ''check_run'' \<and> action = JStr ''completed'' then
        no_return (case_check_run_completed E request_dict)
      else if event = ''installation_repositories'' \<and> action = JStr ''added'' then
        no_return (case_installation_repositories_added E request_dict)
      else if event = ''installation'' \<and> action = JStr ''created'' then
        no_return (case_installation_created E request_dict)
      else if event = ''pull_request'' \<and> action = JStr ''closed'' then
        no_return (case_pull_request_closed E request_dict)
      else if event = ''push'' \<and> action = JNull then
        no_return (case_push E event request_dict)
      else if event = ''ping'' \<and> action = JNull then
        io_return (Some pong)
      else io_return None)"

text \<open>
  An inbound request: its headers and the outcome of \<^verbatim>\<open>await raw_request.json()\<close>
  (\<open>None\<close> when the body does not decode). \<^verbatim>\<open>request_dict.keys()\<close> raises an
  \<^verbatim>\<open>AttributeError\<close> when the body decodes to something that is not a dict.
\<close>

record Request =
  headers :: "string \<rightharpoonup> string"
  body :: "json option"

definition webhook_try :: "env \<Rightarrow> Request \<Rightarrow> (effect, json option) io" where
  "webhook_try E raw_request =
     (case body raw_request of
        None \<Rightarrow> io_raise JSONDecodeError
      | Some (JObj request_dict) \<Rightarrow>
          (case headers raw_request ''X-GitHub-Event'' of
             None \<Rightarrow> io_raise AssertionError
           | Some event \<Rightarrow> dispatch E event (dict_get request_dict ''action'') request_dict)
      | Some _ \<Rightarrow> io_raise AttributeError)"

text \<open>
  The whole function: a \<^verbatim>\<open>ValidationError\<close> raised in the \<^verbatim>\<open>try\<close> becomes
  \<^verbatim>\<open>HTTPException(status_code=422, detail="Failed to parse request")\<close>; any other
  exception leaves the function as it is.
\<close>

definition webhook :: "env \<Rightarrow> Request \<Rightarrow> (effect, json) io" where
  "webhook E raw_request =
     (case webhook_try E raw_request of
        (tr, Inl e) \<Rightarrow>
          if e = ValidationError then (tr, Inl (HTTPException 422 ''Failed to parse request''))
          else (tr, Inl e)
      | (tr, Inr (Some response)) \<Rightarrow> (tr, Inr response)
      | (tr, Inr None) \<Rightarrow> (tr, Inr success))"

section \<open>Example inputs\<close>

text \<open>
  Concrete loggers, stores and services on which the theorems below are exercised. The
  period keys are those of 14 July 2023.
\<close>

definition ex_doc :: "string \<Rightarrow> bool option \<Rightarrow> bool option \<Rightarrow> int \<Rightarrow> int \<Rightarrow> document" where
  "ex_doc u paying trial m d =
     \<lparr>doc_username = u, doc_counters = [''07/2023'' \<mapsto> m, ''07/2023/14'' \<mapsto> d],
      doc_is_paying_user = paying, doc_is_trial_user = trial\<rparr>"

definition ex_logger :: "string \<Rightarrow> collection option \<Rightarrow> ChatLogger" where
  "ex_logger u store =
     \<lparr>data = [''username'' \<mapsto> u], ticket_collection = store,
      current_date = ''07/2023/14'', current_month = ''07/2023''\<rparr>"

definition ex_github :: github where
  "ex_github u =
     (if u = ''bob'' then Inr None
      else if u = ''carol'' then Inr (Some ''Austin, TX'')
      else if u = ''dave'' then Inr (Some ''Atlantis'')
      else if u = ''erin'' then Inr (Some ''Torino'')
      else if u = ''frank'' then Inl SystemExit
      else Inl (OtherException ''unknown user''))"

definition ex_geo :: geo where
  "ex_geo =
     \<lparr>SUPPORT_COUNTRY = [''United States''],
      geocode = (\<lambda>q.
        if q = None then Inr (Some \<lparr>raw = [''display_name'' \<mapsto> ''None, Torino, Piemonte, Italia'']\<rparr>)
        else if q = Some ''Austin, TX'' then
          Inr (Some \<lparr>raw = [''display_name'' \<mapsto> ''Austin, Travis County, Texas, United States'']\<rparr>)
        else if q = Some ''Torino'' then
          Inr (Some \<lparr>raw = [''display_name'' \<mapsto> ''Torino, Piemonte, Italia'']\<rparr>)
        else if q = Some ''Atlantis'' then Inl GeocoderTimedOut
        else Inr None)\<rparr>"

text \<open>
  Concrete webhook deliveries. The comment payload is a human's comment on a pull request
  that the bot opened, in a repository without a description; the closed payload is that
  pull request merged by the same human. The example validators accept exactly these two
  payloads and give the typed request that holds the payload's values. The other
  deliveries are a ping, a ping whose body is a JSON list, an issues/labeled payload
  that holds nothing but its action (and fails validation), a body that does not decode,
  and a request without the event header.
\<close>

definition ex_comment_dict :: pydict where
  "ex_comment_dict =
     [(''action'', JStr ''created''),
      (''issue'', JObj
         [(''title'', JStr ''Add retry to fetch''), (''body'', JNull), (''number'', JInt 12),
          (''html_url'', JStr ''https://github.com/acme/widgets/pull/12''),
          (''user'', JObj [(''login'', JStr ''sweep-ai[bot]''), (''type'', JStr ''Bot'')]),
          (''labels'', JList []),
          (''pull_request'', JObj [(''url'', JStr ''https://api.github.com/repos/acme/widgets/pulls/12'')])]),
      (''comment'', JObj
         [(''id'', JInt 501), (''body'', JStr ''Please rename the helper''),
          (''user'', JObj [(''login'', JStr ''alice''), (''type'', JStr ''User'')])]),
      (''repository'', JObj [(''full_name'', JStr ''acme/widgets''), (''description'', JNull)]),
      (''installation'', JObj [(''id'', JInt 7)])]"

definition ex_comment_request :: IssueCommentRequest where
  "ex_comment_request =
     \<lparr>issue = Some
        \<lparr>issue_title = ''Add retry to fetch'', issue_body = None, issue_number = 12,
         issue_html_url = ''https://github.com/acme/widgets/pull/12'',
         issue_user = \<lparr>login = ''sweep-ai[bot]'', user_type = ''Bot''\<rparr>,
         issue_labels = [], issue_pull_request = Some ()\<rparr>,
      repository = \<lparr>full_name = ''acme/widgets'', description = None\<rparr>,
      installation = \<lparr>inst_id = 7\<rparr>,
      comment = \<lparr>comment_id = 501, comment_body = ''Please rename the helper'',
                 comment_user = \<lparr>login = ''alice'', user_type = ''User''\<rparr>\<rparr>\<rparr>"

definition ex_closed_dict :: pydict where
  "ex_closed_dict =
     [(''action'', JStr ''closed''),
      (''number'', JInt 12),
      (''pull_request'', JObj
         [(''user'', JObj [(''login'', JStr ''sweep-ai[bot]''), (''type'', JStr ''Bot'')]),
          (''merged_by'', JObj [(''login'', JStr ''alice''), (''type'', JStr ''User'')])]),
      (''repository'', JObj [(''full_name'', JStr ''acme/widgets''), (''description'', JNull)]),
      (''installation'', JObj [(''id'', JInt 7)])]"

definition ex_pr_request :: PRRequest where
  "ex_pr_request =
     \<lparr>pr_pull_request =
        \<lparr>cp_user = \<lparr>login = ''sweep-ai[bot]'', user_type = ''Bot''\<rparr>,
         merged_by = Some \<lparr>login = ''alice'', user_type = ''User''\<rparr>\<rparr>,
      pr_repository = \<lparr>full_name = ''acme/widgets'', description = None\<rparr>\<rparr>"

definition ex_env :: env where
  "ex_env =
     \<lparr>SWEEP_LOGIN = ''sweep-ai[bot]'',
      LABEL_NAME = ''sweep'',
      LABEL_COLOR = ''9400D3'',
      LABEL_DESCRIPTION = ''Sweep your software chores'',
      validate_IssueRequest = (\<lambda>d. None),
      validate_IssueCommentRequest = (\<lambda>d. if d = ex_comment_dict then Some ex_comment_request else None),
      validate_CommentCreatedRequest = (\<lambda>d. None),
      validate_CheckRunCompleted = (\<lambda>d. None),
      validate_ReposAddedRequest = (\<lambda>d. None),
      validate_InstallationCreatedRequest = (\<lambda>d. None),
      validate_PRRequest = (\<lambda>d. if d = ex_closed_dict then Some ex_pr_request else None),
      label_names = (\<lambda>name. []),
      check_suite_logs = (\<lambda>request. []),
      raises = (\<lambda>x. None)\<rparr>"

definition ex_ping :: Request where
  "ex_ping =
     \<lparr>headers = [''X-GitHub-Event'' \<mapsto> ''ping''],
      body = Some (JObj [(''zen'', JStr ''Keep it logically awesome.''), (''hook_id'', JInt 1)])\<rparr>"

definition ex_ping_list :: Request where
  "ex_ping_list = \<lparr>headers = [''X-GitHub-Event'' \<mapsto> ''ping''], body = Some (JList [])\<rparr>"

definition ex_labeled :: Request where
  "ex_labeled =
     \<lparr>headers = [''X-GitHub-Event'' \<mapsto> ''issues''],
      body = Some (JObj [(''action'', JStr ''labeled'')])\<rparr>"

definition ex_undecodable :: Request where
  "ex_undecodable = \<lparr>headers = [''X-GitHub-Event'' \<mapsto> ''issues''], body = None\<rparr>"

definition ex_no_event :: Request where
  "ex_no_event = \<lparr>headers = Map.empty, body = Some (JObj [])\<rparr>"

definition ex_pr_comment :: Request where
  "ex_pr_comment =
     \<lparr>headers = [''X-GitHub-Event'' \<mapsto> ''issue_comment''], body = Some (JObj ex_comment_dict)\<rparr>"

definition ex_pr_closed :: Request where
  "ex_pr_closed =
     \<lparr>headers = [''X-GitHub-Event'' \<mapsto> ''pull_request''], body = Some (JObj ex_closed_dict)\<rparr>"

section \<open>Running computations\<close>

lemma io_bind_Inl [simp]: "io_bind (ts, Inl e) f = (ts, Inl e)"
  by (simp add: io_bind_def)

lemma io_bind_Inr [simp]: "io_bind (ts, Inr a) f = (ts @ fst (f a), snd (f a))"
  by (simp add: io_bind_def split: prod.splits)

lemma io_bind_return [simp]: "io_bind (io_return x) f = f x"
  by (simp add: io_return_def)

lemma io_bind_raise [simp]: "io_bind (io_raise e) f = io_raise e"
  by (simp add: io_raise_def)

lemma snd_io_bind: "snd (io_bind m f) = (case snd m of Inl e \<Rightarrow> Inl e | Inr a \<Rightarrow> snd (f a))"
  by (cases m) (auto simp: io_bind_def split: sum.splits prod.splits)

lemma snd_io_simps [simp]:
  "snd (io_return x) = Inr x" "snd (io_raise e) = Inl e" "snd (io_emit t) = Inr ()"
  "snd (io_lift r) = r"
  by (simp_all add: io_return_def io_raise_def io_emit_def io_lift_def)

section \<open>Properties of the usage quota governor\<close>

subsection \<open>The value each function returns\<close>

lemma snd_get_ticket_count:
  assumes "ticket_collection self = Some coll" and "data self ''username'' = Some u"
  shows "snd (get_ticket_count self use_date gpt3) =
           Inr (stored_count coll u
                  (if gpt3 then current_month self @ ''_gpt3''
                   else if use_date then current_date self else current_month self))"
  using assms by (simp add: get_ticket_count_def data_item_def snd_io_bind Let_def)

lemma snd_is_paying_user:
  assumes "ticket_collection self = Some coll" and "data self ''username'' = Some u"
  shows "\<exists>p. snd (is_paying_user self) = Inr p"
  using assms by (auto simp: is_paying_user_def data_item_def split: option.splits)

lemma snd_is_trial_user:
  assumes "ticket_collection self = Some coll" and "data self ''username'' = Some u"
  shows "\<exists>p. snd (is_trial_user self) = Inr p"
  using assms by (auto simp: is_trial_user_def data_item_def split: option.splits)

lemma snd_location_default:
  assumes "snd (get_ticket_count self False False) = Inr m"
      and "snd (get_ticket_count self True False) = Inr d"
  shows "snd (location_default self) = Inr (5 \<le> m \<or> 3 < d)"
  using assms by (simp add: location_default_def snd_io_bind)

lemma snd_location_try:
  assumes "data self ''username'' = Some u"
      and "snd (get_ticket_count self False False) = Inr m"
      and "snd (get_ticket_count self True False) = Inr d"
  shows "snd (location_try G self g) =
           (case support_check G g u of
              Inl e \<Rightarrow> Inl e
            | Inr s \<Rightarrow> if s then Inr None else Inr (Some (5 \<le> m \<or> 1 \<le> d)))"
  using assms
  by (simp add: location_try_def support_check_def data_item_def snd_io_bind
      split: sum.splits)

lemma snd_check_location:
  assumes "data self ''username'' = Some u"
      and "snd (get_ticket_count self False False) = Inr m"
      and "snd (get_ticket_count self True False) = Inr d"
  shows "snd (check_location_and_ticket_count G self g) =
           (case support_check G g u of
              Inl e \<Rightarrow> if e = SystemExit then Inl SystemExit else Inr (5 \<le> m \<or> 3 < d)
            | Inr s \<Rightarrow> Inr (5 \<le> m \<or> (if s then 3 < d else 1 \<le> d)))"
proof -
  note t = snd_location_try [OF assms, of G g]
  note dflt = snd_location_default [OF assms(2,3)]
  obtain lg r where lr: "location_try G self g = (lg, r)"
    by (cases "location_try G self g")
  with t have r: "r = (case support_check G g u of
              Inl e \<Rightarrow> Inl e
            | Inr s \<Rightarrow> if s then Inr None else Inr (Some (5 \<le> m \<or> 1 \<le> d)))"
    by simp
  show ?thesis
    unfolding check_location_and_ticket_count_def lr
    by (simp add: r dflt split: sum.splits)
qed

text \<open>
  The decision as a function of what the store and the services answer: the tier flags,
  the monthly count \<open>m\<close>, the daily count \<open>d\<close> and the outcome of the support check.
\<close>

lemma snd_use_faster_model:
  assumes "ticket_collection self = Some coll"
      and "data self ''username'' = Some u"
      and "snd (is_paying_user self) = Inr paying"
      and "snd (is_trial_user self) = Inr trial"
      and "snd (get_ticket_count self False False) = Inr m"
      and "snd (get_ticket_count self True False) = Inr d"
  shows "snd (use_faster_model G self g) =
           (if paying then Inr (500 \<le> m)
            else if trial then Inr (15 \<le> m)
            else (case support_check G g u of
                    Inl e \<Rightarrow> if e = SystemExit then Inl SystemExit else Inr (5 \<le> m \<or> 3 < d)
                  | Inr s \<Rightarrow> Inr (5 \<le> m \<or> (if s then 3 < d else 1 \<le> d))))"
  using assms snd_check_location [OF assms(2,5,6), of G g]
  by (simp add: use_faster_model_def snd_io_bind)

subsection \<open>The store after an update\<close>

lemma stored_count_find_one:
  "stored_count coll u k =
     (case find_one coll u of
        None \<Rightarrow> 0
      | Some d \<Rightarrow> (case doc_counters d k of None \<Rightarrow> 0 | Some n \<Rightarrow> n))"
  by (induction coll) (simp_all add: stored_count_def aggregate_def find_one_def)

lemma find_one_update_one:
  "find_one (update_one coll u inc) u' =
     (if u' = u then
        Some (case find_one coll u of
                None \<Rightarrow> \<lparr>doc_username = u, doc_counters = inc_fields Map.empty inc,
                          doc_is_paying_user = None, doc_is_trial_user = None\<rparr>
              | Some d \<Rightarrow> d\<lparr>doc_counters := inc_fields (doc_counters d) inc\<rparr>)
      else find_one coll u')"
  by (induction coll) (auto simp: find_one_def)

lemma stored_count_update_one:
  "stored_count (update_one coll u inc) u' k =
     (if u' = u then stored_count coll u k + (case inc k of None \<Rightarrow> 0 | Some i \<Rightarrow> i)
      else stored_count coll u' k)"
  by (auto simp: stored_count_find_one find_one_update_one inc_fields_def split: option.splits)

lemma add_successful_ticket_store:
  assumes "ticket_collection self = Some coll" and "data self ''username'' = Some u0"
  shows "snd (add_successful_ticket self gpt3) =
           Inr (self\<lparr>ticket_collection := Some (update_one coll
                  (case data self ''assignee'' of Some a \<Rightarrow> a | None \<Rightarrow> u0)
                  (if gpt3 then [current_month self @ ''_gpt3'' \<mapsto> 1]
                   else [current_month self \<mapsto> 1, current_date self \<mapsto> 1]))\<rparr>)"
  using assms
  by (simp add: add_successful_ticket_def data_item_def snd_io_bind Let_def split: option.splits)

lemma month_gpt3_neq [simp]: "m @ ''_gpt3'' \<noteq> m" "m \<noteq> m @ ''_gpt3''"
  by simp_all

lemma add_successful_tickets_store:
  assumes "data self ''username'' = Some u0"
      and "target = (case data self ''assignee'' of Some a \<Rightarrow> a | None \<Rightarrow> u0)"
      and "current_date self \<noteq> current_month self"
      and "current_date self \<noteq> current_month self @ ''_gpt3''"
  shows "ticket_collection self = Some coll \<Longrightarrow>
         \<exists>self' coll'. snd (add_successful_tickets n self gpt3) = Inr self'
           \<and> ticket_collection self' = Some coll'
           \<and> data self' = data self
           \<and> current_month self' = current_month self
           \<and> current_date self' = current_date self
           \<and> stored_count coll' target (current_month self) =
               stored_count coll target (current_month self) + (if gpt3 then 0 else int n)
           \<and> stored_count coll' target (current_date self) =
               stored_count coll target (current_date self) + (if gpt3 then 0 else int n)
           \<and> stored_count coll' target (current_month self @ ''_gpt3'') =
               stored_count coll target (current_month self @ ''_gpt3'') + (if gpt3 then int n else 0)"
  using assms
proof (induction n arbitrary: self coll)
  case 0
  then show ?case by simp
next
  case (Suc n)
  let ?inc = "if gpt3 then [current_month self @ ''_gpt3'' \<mapsto> 1]
              else [current_month self \<mapsto> (1::int), current_date self \<mapsto> 1]"
  let ?coll1 = "update_one coll target ?inc"
  let ?self1 = "self\<lparr>ticket_collection := Some ?coll1\<rparr>"
  have step: "snd (add_successful_ticket self gpt3) = Inr ?self1"
    using add_successful_ticket_store [OF Suc.prems(1,2)] Suc.prems(3) by simp
  have "\<exists>self' coll'. snd (add_successful_tickets n ?self1 gpt3) = Inr self'
           \<and> ticket_collection self' = Some coll'
           \<and> data self' = data ?self1
           \<and> current_month self' = current_month ?self1
           \<and> current_date self' = current_date ?self1
           \<and> stored_count coll' target (current_month ?self1) =
               stored_count ?coll1 target (current_month ?self1) + (if gpt3 then 0 else int n)
           \<and> stored_count coll' target (current_date ?self1) =
               stored_count ?coll1 target (current_date ?self1) + (if gpt3 then 0 else int n)
           \<and> stored_count coll' target (current_month ?self1 @ ''_gpt3'') =
               stored_count ?coll1 target (current_month ?self1 @ ''_gpt3'') + (if gpt3 then int n else 0)"
    using Suc.prems by (intro Suc.IH) simp_all
  then obtain self' coll' where
    r: "snd (add_successful_tickets n ?self1 gpt3) = Inr self'"
       "ticket_collection self' = Some coll'"
       "data self' = data self" "current_month self' = current_month self"
       "current_date self' = current_date self"
    and c: "stored_count coll' target (current_month self) =
               stored_count ?coll1 target (current_month self) + (if gpt3 then 0 else int n)"
       "stored_count coll' target (current_date self) =
               stored_count ?coll1 target (current_date self) + (if gpt3 then 0 else int n)"
       "stored_count coll' target (current_month self @ ''_gpt3'') =
               stored_count ?coll1 target (current_month self @ ''_gpt3'') + (if gpt3 then int n else 0)"
    by auto
  have run: "snd (add_successful_tickets (Suc n) self gpt3) = Inr self'"
    using step r(1) by (simp add: snd_io_bind)
  have inc: "stored_count ?coll1 target (current_month self) =
               stored_count coll target (current_month self) + (if gpt3 then 0 else 1)"
       "stored_count ?coll1 target (current_date self) =
               stored_count coll target (current_date self) + (if gpt3 then 0 else 1)"
       "stored_count ?coll1 target (current_month self @ ''_gpt3'') =
               stored_count coll target (current_month self @ ''_gpt3'') + (if gpt3 then 1 else 0)"
    using Suc.prems(4,5) by (simp_all add: stored_count_update_one)
  show ?case
    using run r(2-5) c inc by (intro exI [of _ self'] exI [of _ coll']) simp
qed

subsection \<open>The examples evaluated\<close>

lemma ex_support_bob: "support_check ex_geo ex_github ''bob'' = Inr False"
  by code_simp

lemma ex_support_carol: "support_check ex_geo ex_github ''carol'' = Inr True"
  by code_simp

lemma ex_support_dave: "support_check ex_geo ex_github ''dave'' = Inl GeocoderTimedOut"
  by code_simp

lemma ex_support_erin: "support_check ex_geo ex_github ''erin'' = Inr False"
  by code_simp

lemma ex_support_frank: "support_check ex_geo ex_github ''frank'' = Inl SystemExit"
  by code_simp

lemma ex_logger_values:
  "snd (is_paying_user (ex_logger u (Some [ex_doc u p t m d]))) = Inr (p = Some True)"
  "snd (is_trial_user (ex_logger u (Some [ex_doc u p t m d]))) = Inr (t = Some True)"
  "snd (get_ticket_count (ex_logger u (Some [ex_doc u p t m d])) False False) = Inr m"
  "snd (get_ticket_count (ex_logger u (Some [ex_doc u p t m d])) True False) = Inr d"
  "data (ex_logger u store) ''username'' = Some u"
  "ticket_collection (ex_logger u store) = store"
  by (auto simp: is_paying_user_def is_trial_user_def ex_logger_def ex_doc_def data_item_def
      find_one_def snd_get_ticket_count [where u = u] stored_count_find_one split: option.splits)

subsection \<open>The free tier\<close>

text \<open>
  Claim C1, as amended. For a user who is neither paying nor trial, with the store
  available, monthly count \<open>m\<close> and daily count \<open>d\<close>: when the support check
  answers that the resolved location is not on the allow-list, \<^verbatim>\<open>use_faster_model\<close>
  returns true iff \<open>m \<ge> 5\<close> or \<open>d \<ge> 1\<close>; when the user lookup, the geocoder or the
  support check raises (a timeout, a service error, any other exception but
  \<^verbatim>\<open>SystemExit\<close>), it returns true iff \<open>m \<ge> 5\<close> or \<open>d > 3\<close>; when one of them
  raises \<^verbatim>\<open>SystemExit\<close>, it is raised again and leaves \<^verbatim>\<open>use_faster_model\<close>. The code has no
  test for an unset location: it is handed to the geocoder like any other, and the
  branch follows the geocoder's answer.
\<close>

theorem free_tier_rule:
  assumes "ticket_collection self \<noteq> None"
      and "data self ''username'' = Some u"
      and "snd (is_paying_user self) = Inr False"
      and "snd (is_trial_user self) = Inr False"
      and "snd (get_ticket_count self False False) = Inr m"
      and "snd (get_ticket_count self True False) = Inr d"
  shows "(support_check G g u = Inr False \<longrightarrow>
            snd (use_faster_model G self g) = Inr (5 \<le> m \<or> 1 \<le> d))
         \<and> (\<forall>e. support_check G g u = Inl e \<and> e \<noteq> SystemExit \<longrightarrow>
            snd (use_faster_model G self g) = Inr (5 \<le> m \<or> 3 < d))
         \<and> (support_check G g u = Inl SystemExit \<longrightarrow>
            snd (use_faster_model G self g) = Inl SystemExit)"
proof -
  from assms(1) obtain coll where c: "ticket_collection self = Some coll"
    by auto
  show ?thesis
    using snd_use_faster_model [OF c assms(2-6), of G g] by simp
qed

text \<open>
  The rule at work: erin's location resolves to a place in Italy, outside the allow-list;
  the geocoder times out on dave's; the lookup of frank raises \<^verbatim>\<open>SystemExit\<close>.
\<close>

theorem free_tier_rule_witness:
  "support_check ex_geo ex_github ''erin'' = Inr False
   \<and> snd (use_faster_model ex_geo (ex_logger ''erin'' (Some [ex_doc ''erin'' None None 0 1])) ex_github)
       = Inr True
   \<and> snd (use_faster_model ex_geo (ex_logger ''erin'' (Some [ex_doc ''erin'' None None 4 0])) ex_github)
       = Inr False
   \<and> support_check ex_geo ex_github ''dave'' = Inl GeocoderTimedOut
   \<and> snd (use_faster_model ex_geo (ex_logger ''dave'' (Some [ex_doc ''dave'' None None 0 3])) ex_github)
       = Inr False
   \<and> snd (use_faster_model ex_geo (ex_logger ''dave'' (Some [ex_doc ''dave'' None None 0 4])) ex_github)
       = Inr True
   \<and> support_check ex_geo ex_github ''frank'' = Inl SystemExit
   \<and> snd (use_faster_model ex_geo (ex_logger ''frank'' (Some [ex_doc ''frank'' None None 9 9])) ex_github)
       = Inl SystemExit"
proof -
  have r: "(support_check ex_geo ex_github u = Inr False \<longrightarrow>
              snd (use_faster_model ex_geo (ex_logger u (Some [ex_doc u None None m d])) ex_github)
                = Inr (5 \<le> m \<or> 1 \<le> d))
           \<and> (\<forall>e. support_check ex_geo ex_github u = Inl e \<and> e \<noteq> SystemExit \<longrightarrow>
              snd (use_faster_model ex_geo (ex_logger u (Some [ex_doc u None None m d])) ex_github)
                = Inr (5 \<le> m \<or> 3 < d))
           \<and> (support_check ex_geo ex_github u = Inl SystemExit \<longrightarrow>
              snd (use_faster_model ex_geo (ex_logger u (Some [ex_doc u None None m d])) ex_github)
                = Inl SystemExit)" for u m d
    by (rule free_tier_rule) (simp_all add: ex_logger_values)
  show ?thesis
    using r [of "''erin''" 0 1] r [of "''erin''" 4 0] r [of "''dave''" 0 3] r [of "''dave''" 0 4]
      r [of "''frank''" 9 9]
    by (simp add: ex_support_erin ex_support_dave ex_support_frank)
qed

text \<open>
  Claim C1 as stated fails for an unset location. bob has declared no location; the
  geocoder is asked for \<^verbatim>\<open>None\<close> and answers with a place outside the allow-list.
  With monthly count 0 and daily count 1 the decision is true, where the rule for an
  unset location (\<open>m \<ge> 5\<close> or \<open>d > 3\<close>) gives false.
\<close>

theorem unset_location_counterexample:
  "ex_github ''bob'' = Inr None
   \<and> snd (is_paying_user (ex_logger ''bob'' (Some [ex_doc ''bob'' None None 0 1]))) = Inr False
   \<and> snd (is_trial_user (ex_logger ''bob'' (Some [ex_doc ''bob'' None None 0 1]))) = Inr False
   \<and> snd (get_ticket_count (ex_logger ''bob'' (Some [ex_doc ''bob'' None None 0 1])) False False) = Inr 0
   \<and> snd (get_ticket_count (ex_logger ''bob'' (Some [ex_doc ''bob'' None None 0 1])) True False) = Inr 1
   \<and> snd (use_faster_model ex_geo (ex_logger ''bob'' (Some [ex_doc ''bob'' None None 0 1])) ex_github)
       = Inr True
   \<and> \<not> ((5::int) \<le> 0 \<or> (3::int) < 1)"
proof -
  let ?L = "ex_logger ''bob'' (Some [ex_doc ''bob'' None None 0 1])"
  have "snd (use_faster_model ex_geo ?L ex_github) = Inr True"
    using snd_use_faster_model [of ?L "[ex_doc ''bob'' None None 0 1]" "''bob''" False False 0 1
        ex_geo ex_github]
    by (simp add: ex_logger_values ex_support_bob)
  then show ?thesis
    by (simp add: ex_logger_values ex_github_def)
qed

text \<open>
  Claim C10. For a user who is neither paying nor trial, when geocoding succeeds and the
  resolved location is on the allow-list, the \<^verbatim>\<open>try\<close> block does not return:
  control reaches the last line, and \<^verbatim>\<open>use_faster_model\<close> returns true iff
  \<open>m \<ge> 5\<close> or \<open>d > 3\<close>.
\<close>

theorem supported_country_falls_through:
  assumes "ticket_collection self \<noteq> None"
      and "data self ''username'' = Some u"
      and "snd (is_paying_user self) = Inr False"
      and "snd (is_trial_user self) = Inr False"
      and "g u = Inr loc_user"
      and "geocode G loc_user = Inr (Some loc)"
      and "is_supported_country (SUPPORT_COUNTRY G) (Some loc) = Inr True"
      and "snd (get_ticket_count self False False) = Inr m"
      and "snd (get_ticket_count self True False) = Inr d"
  shows "snd (use_faster_model G self g) = Inr (5 \<le> m \<or> 3 < d)"
proof -
  from assms(1) obtain coll where c: "ticket_collection self = Some coll"
    by auto
  have s: "support_check G g u = Inr True"
    using assms(5-7) by (simp add: support_check_def)
  show ?thesis
    using snd_use_faster_model [OF c assms(2,3,4,8,9), of G g] s by simp
qed

text \<open>carol's location resolves to a place in the United States: daily count 1 does not degrade, 4 does.\<close>

theorem supported_country_falls_through_witness:
  "snd (use_faster_model ex_geo (ex_logger ''carol'' (Some [ex_doc ''carol'' None None 0 1])) ex_github)
     = Inr False
   \<and> snd (use_faster_model ex_geo (ex_logger ''carol'' (Some [ex_doc ''carol'' None None 0 4])) ex_github)
     = Inr True"
proof -
  let ?loc = "\<lparr>raw = [''display_name'' \<mapsto> ''Austin, Travis County, Texas, United States'']\<rparr>"
  have g: "ex_github ''carol'' = Inr (Some ''Austin, TX'')"
    by (simp add: ex_github_def)
  have l: "geocode ex_geo (Some ''Austin, TX'') = Inr (Some ?loc)"
    by (simp add: ex_geo_def)
  have s: "is_supported_country (SUPPORT_COUNTRY ex_geo) (Some ?loc) = Inr True"
    by code_simp
  have r: "snd (use_faster_model ex_geo (ex_logger ''carol'' (Some [ex_doc ''carol'' None None 0 k])) ex_github)
             = Inr (5 \<le> (0::int) \<or> 3 < k)" for k
    using supported_country_falls_through
        [where self = "ex_logger ''carol'' (Some [ex_doc ''carol'' None None 0 k])"
           and u = "''carol''" and g = ex_github and G = ex_geo
           and loc_user = "Some ''Austin, TX''" and loc = ?loc and m = 0 and d = k]
      g l s
    by (simp add: ex_logger_values)
  show ?thesis
    using r [of 1] r [of 4] by simp
qed

subsection \<open>Recording tickets\<close>

text \<open>
  Claim C2, as amended. \<^verbatim>\<open>add_successful_ticket\<close> works on the record of
  \<^verbatim>\<open>data["assignee"]\<close> when the logger's data has one, and of \<^verbatim>\<open>data["username"]\<close>
  otherwise. With the cheap-tier flag unset it increments the current month counter and
  the current day counter and leaves the month+cheap-tier counter alone; with the flag
  set it increments the month+cheap-tier counter only, and the month and day counters
  keep their values. Called \<open>n\<close> times within one day, it adds exactly \<open>n\<close> to the
  counters it increments.
\<close>

theorem add_successful_tickets_counts:
  assumes "ticket_collection self = Some coll"
      and "data self ''username'' = Some u0"
      and "target = (case data self ''assignee'' of Some a \<Rightarrow> a | None \<Rightarrow> u0)"
      and "current_date self \<noteq> current_month self"
      and "current_date self \<noteq> current_month self @ ''_gpt3''"
  shows "\<exists>self' coll'. snd (add_successful_tickets n self gpt3) = Inr self'
           \<and> ticket_collection self' = Some coll'
           \<and> stored_count coll' target (current_month self) =
               stored_count coll target (current_month self) + (if gpt3 then 0 else int n)
           \<and> stored_count coll' target (current_date self) =
               stored_count coll target (current_date self) + (if gpt3 then 0 else int n)
           \<and> stored_count coll' target (current_month self @ ''_gpt3'') =
               stored_count coll target (current_month self @ ''_gpt3'') + (if gpt3 then int n else 0)"
  using add_successful_tickets_store [OF assms(2-5) assms(1), of n gpt3] by blast

text \<open>Three tickets for erin, who had 2 this month and 1 today.\<close>

theorem add_successful_tickets_counts_witness:
  "\<exists>self' coll'.
      snd (add_successful_tickets 3 (ex_logger ''erin'' (Some [ex_doc ''erin'' None None 2 1])) False) = Inr self'
      \<and> ticket_collection self' = Some coll'
      \<and> stored_count coll' ''erin'' ''07/2023'' = 5
      \<and> stored_count coll' ''erin'' ''07/2023/14'' = 4
      \<and> stored_count coll' ''erin'' ''07/2023_gpt3'' = 0"
proof -
  let ?L = "ex_logger ''erin'' (Some [ex_doc ''erin'' None None 2 1])"
  have c: "stored_count [ex_doc ''erin'' None None 2 1] ''erin'' ''07/2023'' = 2"
       "stored_count [ex_doc ''erin'' None None 2 1] ''erin'' ''07/2023/14'' = 1"
       "stored_count [ex_doc ''erin'' None None 2 1] ''erin'' ''07/2023_gpt3'' = 0"
    by (simp_all add: stored_count_find_one find_one_def ex_doc_def)
  show ?thesis
    using add_successful_tickets_counts
        [of ?L "[ex_doc ''erin'' None None 2 1]" "''erin''" "''erin''" 3 False] c
    by (simp add: ex_logger_def)
qed

text \<open>
  Claim C2 as stated fails with the cheap-tier flag set: after one such ticket on an empty
  store the month and day counts are still 0, and only the cheap-tier count is 1.
\<close>

theorem cheap_tier_ticket_counterexample:
  "snd (get_ticket_count (ex_logger ''erin'' (Some [])) False False) = Inr 0
   \<and> snd (get_ticket_count (ex_logger ''erin'' (Some [])) True False) = Inr 0
   \<and> snd (io_bind (add_successful_ticket (ex_logger ''erin'' (Some [])) True)
            (\<lambda>self'. get_ticket_count self' False False)) = Inr 0
   \<and> snd (io_bind (add_successful_ticket (ex_logger ''erin'' (Some [])) True)
            (\<lambda>self'. get_ticket_count self' True False)) = Inr 0
   \<and> snd (io_bind (add_successful_ticket (ex_logger ''erin'' (Some [])) True)
            (\<lambda>self'. get_ticket_count self' False True)) = Inr 1"
  by (simp add: snd_io_bind add_successful_ticket_store [where coll = "[]" and ?u0.0 = "''erin''"]
      snd_get_ticket_count [where u = "''erin''"] ex_logger_def stored_count_find_one find_one_def
      inc_fields_def)

subsection \<open>The store unavailable\<close>

text \<open>
  Claim C5. When the ticket collection is not initialised, \<^verbatim>\<open>use_faster_model\<close>
  logs an error and returns true, whatever the logger's data, the services and the
  client are; \<^verbatim>\<open>add_successful_ticket\<close> logs the same error and changes nothing.
\<close>

theorem store_unavailable:
  assumes "ticket_collection self = None"
  shows "use_faster_model G self g = ([(ERROR, [LStr ''Ticket Collection Does Not Exist''])], Inr True)
         \<and> add_successful_ticket self gpt3 =
             ([(ERROR, [LStr ''Ticket Collection Does Not Exist''])], Inr self)"
  using assms by (simp add: use_faster_model_def add_successful_ticket_def not_exist_def)

theorem store_unavailable_witness:
  "ticket_collection (ex_logger ''alice'' None) = None
   \<and> use_faster_model ex_geo (ex_logger ''alice'' None) ex_github =
       ([(ERROR, [LStr ''Ticket Collection Does Not Exist''])], Inr True)
   \<and> add_successful_ticket (ex_logger ''alice'' None) False =
       ([(ERROR, [LStr ''Ticket Collection Does Not Exist''])], Inr (ex_logger ''alice'' None))"
proof -
  have h: "ticket_collection (ex_logger ''alice'' None) = None"
    by (simp add: ex_logger_def)
  show ?thesis
    using store_unavailable [OF h, of ex_geo ex_github False] h by simp
qed

subsection \<open>Monotonicity in the monthly count\<close>

text \<open>
  Claim C6. Take two states of the same user that agree on whether the store is
  available, on the tier flags and on the daily count, under the same client and the
  same services, with monthly counts \<open>c1 \<le> c2\<close>. If the decision is true at \<open>c1\<close>,
  it is true at \<open>c2\<close>.
\<close>

theorem monthly_count_monotonic:
  assumes "(ticket_collection self1 = None) = (ticket_collection self2 = None)"
      and "data self1 ''username'' = data self2 ''username''"
      and "snd (is_paying_user self1) = snd (is_paying_user self2)"
      and "snd (is_trial_user self1) = snd (is_trial_user self2)"
      and "snd (get_ticket_count self1 True False) = snd (get_ticket_count self2 True False)"
      and "snd (get_ticket_count self1 False False) = Inr c1"
      and "snd (get_ticket_count self2 False False) = Inr c2"
      and "c1 \<le> c2"
      and "snd (use_faster_model G self1 g) = Inr True"
  shows "snd (use_faster_model G self2 g) = Inr True"
proof (cases "ticket_collection self1")
  case None
  with assms(1) show ?thesis by (simp add: use_faster_model_def)
next
  case (Some coll1)
  with assms(1) obtain coll2 where s2: "ticket_collection self2 = Some coll2"
    by auto
  obtain u where u1: "data self1 ''username'' = Some u"
    using assms(6) Some
    by (cases "data self1 ''username''") (simp_all add: get_ticket_count_def data_item_def)
  with assms(2) have u2: "data self2 ''username'' = Some u"
    by simp
  obtain p where p1: "snd (is_paying_user self1) = Inr p"
    using snd_is_paying_user [OF Some u1] by auto
  obtain t where t1: "snd (is_trial_user self1) = Inr t"
    using snd_is_trial_user [OF Some u1] by auto
  obtain d where d1: "snd (get_ticket_count self1 True False) = Inr d"
    using snd_get_ticket_count [OF Some u1] by auto
  note v1 = snd_use_faster_model [OF Some u1 p1 t1 assms(6) d1, of G g]
  note v2 = snd_use_faster_model [OF s2 u2 p1 [unfolded assms(3)] t1 [unfolded assms(4)]
      assms(7) d1 [unfolded assms(5)], of G g]
  show ?thesis
    using assms(8,9) unfolding v1 v2
    by (auto split: if_splits sum.splits)
qed

text \<open>A trial user at 15 tickets this month, then at 16.\<close>

theorem monthly_count_monotonic_witness:
  "snd (use_faster_model ex_geo (ex_logger ''erin'' (Some [ex_doc ''erin'' None (Some True) 15 0])) ex_github)
     = Inr True
   \<and> snd (use_faster_model ex_geo (ex_logger ''erin'' (Some [ex_doc ''erin'' None (Some True) 16 0])) ex_github)
     = Inr True"
proof -
  let ?L1 = "ex_logger ''erin'' (Some [ex_doc ''erin'' None (Some True) 15 0])"
  let ?L2 = "ex_logger ''erin'' (Some [ex_doc ''erin'' None (Some True) 16 0])"
  have a: "snd (use_faster_model ex_geo ?L1 ex_github) = Inr True"
    using snd_use_faster_model [of ?L1 "[ex_doc ''erin'' None (Some True) 15 0]" "''erin''"
        False True 15 0 ex_geo ex_github]
    by (simp add: ex_logger_values)
  have "snd (use_faster_model ex_geo ?L2 ex_github) = Inr True"
    by (rule monthly_count_monotonic [of ?L1 ?L2 15 16, OF _ _ _ _ _ _ _ _ a])
       (simp_all add: ex_logger_values)
  with a show ?thesis by simp
qed

subsection \<open>The paying tier\<close>

text \<open>
  Claim C7. For a paying user with monthly count \<open>n\<close>, \<^verbatim>\<open>use_faster_model\<close>
  returns true iff \<open>n \<ge> 500\<close>, whatever the trial flag, the client and the services
  are: false at 499, true at 500.
\<close>

theorem paying_user_threshold:
  assumes "snd (is_paying_user self) = Inr True"
      and "snd (get_ticket_count self False False) = Inr n"
  shows "snd (use_faster_model G self g) = Inr (500 \<le> n)"
proof (cases "ticket_collection self")
  case None
  with assms(1) show ?thesis by (simp add: is_paying_user_def)
next
  case (Some coll)
  with assms show ?thesis by (simp add: use_faster_model_def snd_io_bind)
qed

text \<open>alice pays: 499 tickets do not degrade; 500 do, also with the trial flag set.\<close>

theorem paying_user_threshold_witness:
  "snd (is_paying_user (ex_logger ''alice'' (Some [ex_doc ''alice'' (Some True) None 499 3]))) = Inr True
   \<and> snd (get_ticket_count (ex_logger ''alice'' (Some [ex_doc ''alice'' (Some True) None 499 3])) False False) = Inr 499
   \<and> snd (use_faster_model ex_geo (ex_logger ''alice'' (Some [ex_doc ''alice'' (Some True) None 499 3])) ex_github) = Inr False
   \<and> snd (is_paying_user (ex_logger ''alice'' (Some [ex_doc ''alice'' (Some True) (Some True) 500 0]))) = Inr True
   \<and> snd (get_ticket_count (ex_logger ''alice'' (Some [ex_doc ''alice'' (Some True) (Some True) 500 0])) False False) = Inr 500
   \<and> snd (use_faster_model ex_geo (ex_logger ''alice'' (Some [ex_doc ''alice'' (Some True) (Some True) 500 0])) ex_github) = Inr True"
proof -
  let ?a = "ex_logger ''alice'' (Some [ex_doc ''alice'' (Some True) None 499 3])"
  let ?b = "ex_logger ''alice'' (Some [ex_doc ''alice'' (Some True) (Some True) 500 0])"
  have pa: "snd (is_paying_user ?a) = Inr True" and pb: "snd (is_paying_user ?b) = Inr True"
    by (simp_all add: is_paying_user_def ex_logger_def ex_doc_def data_item_def find_one_def)
  have ca: "snd (get_ticket_count ?a False False) = Inr 499"
    and cb: "snd (get_ticket_count ?b False False) = Inr 500"
    by (simp_all add: snd_get_ticket_count [where u = "''alice''"] stored_count_find_one
        find_one_def ex_logger_def ex_doc_def)
  show ?thesis
    using paying_user_threshold [OF pa ca, of ex_geo ex_github]
      paying_user_threshold [OF pb cb, of ex_geo ex_github] pa pb ca cb
    by simp
qed

section \<open>Properties of the event dispatcher\<close>

subsection \<open>Steps of the handler\<close>

lemma perform_ok [simp]: "raises E x = None \<Longrightarrow> perform E x = ([x], Inr ())"
  by (simp add: perform_def io_emit_def)

lemma perform_fails [simp]: "raises E x = Some e \<Longrightarrow> perform E x = ([], Inl e)"
  by (simp add: perform_def io_raise_def)

lemma io_lift_Inr [simp]: "io_bind (io_lift (Inr x)) f = f x"
  by (cases "f x") (simp add: io_lift_def io_bind_def)

lemma construct_Some [simp]: "construct (Some x) = io_return x"
  by (simp add: construct_def)

lemma construct_None [simp]: "construct None = io_raise ValidationError"
  by (simp add: construct_def)

lemma no_return_Some: "no_return m \<noteq> (tr, Inr (Some x))"
  by (cases m) (auto simp: no_return_def io_bind_def io_return_def split: sum.splits)

lemma dispatch_Some:
  assumes "dispatch E event action request_dict = (tr, Inr (Some x))"
  shows "x = pong \<and> tr = [] \<and> event = ''ping'' \<and> action = JNull"
  using assms
  by (auto simp: dispatch_def io_return_def no_return_Some split: if_splits)

lemma spawn_update_index_ok:
  assumes "subscript (JObj request_dict) ''repository'' = Inr r"
      and "subscript r ''full_name'' = Inr name"
      and "subscript (JObj request_dict) ''installation'' = Inr i"
      and "subscript i ''id'' = Inr iid"
      and "raises E (Update_index_spawn name iid) = None"
  shows "spawn_update_index E request_dict = ([Update_index_spawn name iid], Inr ())"
  using assms by (simp add: spawn_update_index_def)

subsection \<open>Ping\<close>

text \<open>
  Claim C8, as amended. For every request whose event header is \<^verbatim>\<open>ping\<close> and whose
  body decodes to a JSON object without an action (absent or null), \<^verbatim>\<open>webhook\<close>
  returns exactly \<^verbatim>\<open>{"message": "pong"}\<close> and makes no external call: no validator
  runs and no task is dispatched.
\<close>

theorem ping_answers_pong:
  assumes "headers raw_request ''X-GitHub-Event'' = Some ''ping''"
      and "body raw_request = Some (JObj request_dict)"
      and "dict_get request_dict ''action'' = JNull"
  shows "webhook E raw_request = ([], Inr (JObj [(''message'', JStr ''pong'')]))"
  using assms
  by (simp add: webhook_def webhook_try_def dispatch_def pong_def io_return_def)

text \<open>The ping that the hosting platform sends when a hook is created.\<close>

theorem ping_answers_pong_witness:
  "headers ex_ping ''X-GitHub-Event'' = Some ''ping''
   \<and> webhook ex_env ex_ping = ([], Inr (JObj [(''message'', JStr ''pong'')]))"
proof -
  have h: "headers ex_ping ''X-GitHub-Event'' = Some ''ping''"
    and b: "body ex_ping = Some (JObj [(''zen'', JStr ''Keep it logically awesome.''), (''hook_id'', JInt 1)])"
    by (simp_all add: ex_ping_def)
  have a: "dict_get [(''zen'', JStr ''Keep it logically awesome.''), (''hook_id'', JInt 1)] ''action'' = JNull"
    by (simp add: dict_get_def)
  show ?thesis
    using ping_answers_pong [OF h b a, of ex_env] h by simp
qed

text \<open>
  Claim C8 as stated fails on a ping whose body is not a JSON object: with the JSON list
  \<^verbatim>\<open>[]\<close> as body, \<^verbatim>\<open>request_dict.keys()\<close> raises an \<^verbatim>\<open>AttributeError\<close>
  before the \<^verbatim>\<open>match\<close> is reached, and no pong is returned.
\<close>

theorem ping_list_body_counterexample:
  "headers ex_ping_list ''X-GitHub-Event'' = Some ''ping''
   \<and> body ex_ping_list = Some (JList [])
   \<and> webhook ex_env ex_ping_list = ([], Inl AttributeError)
   \<and> webhook ex_env ex_ping_list \<noteq> ([], Inr (JObj [(''message'', JStr ''pong'')]))"
  by (simp add: webhook_def webhook_try_def ex_ping_list_def io_raise_def)

subsection \<open>What reaches the request boundary\<close>

text \<open>The function in terms of the body of its \<^verbatim>\<open>try\<close>.\<close>

lemma webhook_of_try:
  "webhook E raw_request =
     (fst (webhook_try E raw_request),
      case snd (webhook_try E raw_request) of
        Inl e \<Rightarrow> if e = ValidationError then Inl (HTTPException 422 ''Failed to parse request'')
                  else Inl e
      | Inr None \<Rightarrow> Inr success
      | Inr (Some response) \<Rightarrow> Inr response)"
  by (cases "webhook_try E raw_request")
     (auto simp: webhook_def split: sum.splits option.splits)

lemma webhook_try_Some:
  assumes "snd (webhook_try E raw_request) = Inr (Some x)"
  shows "x = pong \<and> fst (webhook_try E raw_request) = []
         \<and> headers raw_request ''X-GitHub-Event'' = Some ''ping''"
proof -
  obtain tr where d: "webhook_try E raw_request = (tr, Inr (Some x))"
    using assms by (cases "webhook_try E raw_request") simp
  then obtain request_dict event where
    "headers raw_request ''X-GitHub-Event'' = Some event"
    "dispatch E event (dict_get request_dict ''action'') request_dict = (tr, Inr (Some x))"
    by (auto simp: webhook_try_def io_raise_def split: option.splits json.splits)
  with dispatch_Some have "x = pong \<and> tr = [] \<and> headers raw_request ''X-GitHub-Event'' = Some ''ping''"
    by blast
  with d show ?thesis by simp
qed

lemma webhook_try_before_match:
  "body raw_request = None \<Longrightarrow> webhook_try E raw_request = ([], Inl JSONDecodeError)"
  "body raw_request = Some j \<Longrightarrow> \<forall>d. j \<noteq> JObj d \<Longrightarrow>
     webhook_try E raw_request = ([], Inl AttributeError)"
  "body raw_request = Some (JObj d) \<Longrightarrow> headers raw_request ''X-GitHub-Event'' = None \<Longrightarrow>
     webhook_try E raw_request = ([], Inl AssertionError)"
  by (auto simp: webhook_try_def io_raise_def split: json.splits)

lemma webhook_try_invalid:
  assumes "body raw_request = Some (JObj d)"
      and "headers raw_request ''X-GitHub-Event'' = Some event"
      and "(event = ''issues'' \<and> dict_get d ''action'' = JStr ''opened''
              \<and> validate_IssueRequest E d = None)
           \<or> (event = ''issues'' \<and> dict_get d ''action'' = JStr ''labeled''
              \<and> validate_IssueRequest E d = None)
           \<or> (event = ''issue_comment'' \<and> dict_get d ''action'' = JStr ''created''
              \<and> validate_IssueCommentRequest E d = None)
           \<or> (event = ''pull_request_review_comment'' \<and> dict_get d ''action'' = JStr ''created''
              \<and> validate_CommentCreatedRequest E d = None)
           \<or> (event = ''check_run'' \<and> dict_get d ''action'' = JStr ''completed''
              \<and> validate_CheckRunCompleted E d = None)
           \<or> (event = ''installation_repositories'' \<and> dict_get d ''action'' = JStr ''added''
              \<and> validate_ReposAddedRequest E d = None)
           \<or> (event = ''installation'' \<and> dict_get d ''action'' = JStr ''created''
              \<and> validate_InstallationCreatedRequest E d = None)
           \<or> (event = ''pull_request'' \<and> dict_get d ''action'' = JStr ''closed''
              \<and> validate_PRRequest E d = None)"
  shows "webhook_try E raw_request = ([], Inl ValidationError)"
  using assms(3)
  by (elim disjE conjE)
     (simp_all add: webhook_try_def assms(1,2) dispatch_def no_return_def io_raise_def
        case_issues_opened_def case_issues_labeled_def case_issue_comment_created_def
        case_pull_request_review_comment_created_def case_check_run_completed_def
        case_installation_repositories_added_def case_installation_created_def
        case_pull_request_closed_def)

text \<open>
  Claim C3, as amended. For every inbound request: a \<^verbatim>\<open>ValidationError\<close> raised
  inside the \<^verbatim>\<open>try\<close> becomes the 422 \<^verbatim>\<open>HTTPException\<close> with detail
  \<^verbatim>\<open>"Failed to parse request"\<close>, and this is what happens, before any external call,
  when the validator of the arm selected by event and action rejects the payload; an
  exception other than \<^verbatim>\<open>ValidationError\<close> raised inside the \<^verbatim>\<open>try\<close> leaves
  the function unchanged, as do the \<^verbatim>\<open>JSONDecodeError\<close> of a body that does not
  decode, the \<^verbatim>\<open>AttributeError\<close> of a body that is not a JSON object and the
  \<^verbatim>\<open>AssertionError\<close> of a missing event header; when the \<^verbatim>\<open>try\<close> raises
  nothing, the function returns \<^verbatim>\<open>{"success": true}\<close>, or
  \<^verbatim>\<open>{"message": "pong"}\<close> on a ping and with no external call made. So the function
  ends in one of four ways, and the 422 is the only error response it builds itself.
\<close>

theorem webhook_outcomes:
  "(snd (webhook_try E raw_request) = Inl ValidationError \<longrightarrow>
      webhook E raw_request =
        (fst (webhook_try E raw_request), Inl (HTTPException 422 ''Failed to parse request'')))
   \<and> (\<forall>e. snd (webhook_try E raw_request) = Inl e \<and> e \<noteq> ValidationError \<longrightarrow>
      webhook E raw_request = (fst (webhook_try E raw_request), Inl e))
   \<and> (\<forall>v. snd (webhook_try E raw_request) = Inr v \<longrightarrow>
        (v = None \<and> webhook E raw_request = (fst (webhook_try E raw_request), Inr success))
        \<or> (v = Some pong \<and> webhook E raw_request = ([], Inr pong)
            \<and> headers raw_request ''X-GitHub-Event'' = Some ''ping''))
   \<and> (\<forall>d event. body raw_request = Some (JObj d)
        \<and> headers raw_request ''X-GitHub-Event'' = Some event
        \<and> ((event = ''issues'' \<and> dict_get d ''action'' = JStr ''opened''
              \<and> validate_IssueRequest E d = None)
           \<or> (event = ''issues'' \<and> dict_get d ''action'' = JStr ''labeled''
              \<and> validate_IssueRequest E d = None)
           \<or> (event = ''issue_comment'' \<and> dict_get d ''action'' = JStr ''created''
              \<and> validate_IssueCommentRequest E d = None)
           \<or> (event = ''pull_request_review_comment'' \<and> dict_get d ''action'' = JStr ''created''
              \<and> validate_CommentCreatedRequest E d = None)
           \<or> (event = ''check_run'' \<and> dict_get d ''action'' = JStr ''completed''
              \<and> validate_CheckRunCompleted E d = None)
           \<or> (event = ''installation_repositories'' \<and> dict_get d ''action'' = JStr ''added''
              \<and> validate_ReposAddedRequest E d = None)
           \<or> (event = ''installation'' \<and> dict_get d ''action'' = JStr ''created''
              \<and> validate_InstallationCreatedRequest E d = None)
           \<or> (event = ''pull_request'' \<and> dict_get d ''action'' = JStr ''closed''
              \<and> validate_PRRequest E d = None))
        \<longrightarrow> webhook E raw_request = ([], Inl (HTTPException 422 ''Failed to parse request'')))
   \<and> (body raw_request = None \<longrightarrow> webhook E raw_request = ([], Inl JSONDecodeError))
   \<and> (\<forall>j. body raw_request = Some j \<and> (\<forall>d. j \<noteq> JObj d) \<longrightarrow>
        webhook E raw_request = ([], Inl AttributeError))
   \<and> (\<forall>d. body raw_request = Some (JObj d) \<and> headers raw_request ''X-GitHub-Event'' = None \<longrightarrow>
        webhook E raw_request = ([], Inl AssertionError))
   \<and> (snd (webhook E raw_request) = Inr success
       \<or> (snd (webhook E raw_request) = Inr pong \<and> fst (webhook E raw_request) = []
            \<and> headers raw_request ''X-GitHub-Event'' = Some ''ping'')
       \<or> (snd (webhook E raw_request) = Inl (HTTPException 422 ''Failed to parse request'')
            \<and> snd (webhook_try E raw_request) = Inl ValidationError)
       \<or> (\<exists>e. snd (webhook E raw_request) = Inl e \<and> snd (webhook_try E raw_request) = Inl e
            \<and> e \<noteq> ValidationError))"
proof (intro conjI allI impI)
  assume "snd (webhook_try E raw_request) = Inl ValidationError"
  then show "webhook E raw_request =
      (fst (webhook_try E raw_request), Inl (HTTPException 422 ''Failed to parse request''))"
    by (simp add: webhook_of_try)
next
  fix e
  assume "snd (webhook_try E raw_request) = Inl e \<and> e \<noteq> ValidationError"
  then show "webhook E raw_request = (fst (webhook_try E raw_request), Inl e)"
    by (simp add: webhook_of_try)
next
  fix v
  assume v: "snd (webhook_try E raw_request) = Inr v"
  show "(v = None \<and> webhook E raw_request = (fst (webhook_try E raw_request), Inr success))
        \<or> (v = Some pong \<and> webhook E raw_request = ([], Inr pong)
            \<and> headers raw_request ''X-GitHub-Event'' = Some ''ping'')"
  proof (cases v)
    case None
    with v show ?thesis by (simp add: webhook_of_try)
  next
    case (Some x)
    with v webhook_try_Some [of E raw_request x] show ?thesis
      by (simp add: webhook_of_try)
  qed
next
  fix d event
  assume "body raw_request = Some (JObj d)
        \<and> headers raw_request ''X-GitHub-Event'' = Some event
        \<and> ((event = ''issues'' \<and> dict_get d ''action'' = JStr ''opened''
              \<and> validate_IssueRequest E d = None)
           \<or> (event = ''issues'' \<and> dict_get d ''action'' = JStr ''labeled''
              \<and> validate_IssueRequest E d = None)
           \<or> (event = ''issue_comment'' \<and> dict_get d ''action'' = JStr ''created''
              \<and> validate_IssueCommentRequest E d = None)
           \<or> (event = ''pull_request_review_comment'' \<and> dict_get d ''action'' = JStr ''created''
              \<and> validate_CommentCreatedRequest E d = None)
           \<or> (event = ''check_run'' \<and> dict_get d ''action'' = JStr ''completed''
              \<and> validate_CheckRunCompleted E d = None)
           \<or> (event = ''installation_repositories'' \<and> dict_get d ''action'' = JStr ''added''
              \<and> validate_ReposAddedRequest E d = None)
           \<or> (event = ''installation'' \<and> dict_get d ''action'' = JStr ''created''
              \<and> validate_InstallationCreatedRequest E d = None)
           \<or> (event = ''pull_request'' \<and> dict_get d ''action'' = JStr ''closed''
              \<and> validate_PRRequest E d = None))" (is "?b \<and> ?h \<and> ?v")
  then have "?b" and "?h" and "?v"
    by (rule conjunct1, rule conjunct2 [THEN conjunct1], rule conjunct2 [THEN conjunct2])
  then have "webhook_try E raw_request = ([], Inl ValidationError)"
    by (rule webhook_try_invalid)
  then show "webhook E raw_request = ([], Inl (HTTPException 422 ''Failed to parse request''))"
    by (simp add: webhook_of_try)
next
  assume "body raw_request = None"
  then show "webhook E raw_request = ([], Inl JSONDecodeError)"
    by (simp add: webhook_of_try webhook_try_before_match(1))
next
  fix j
  assume "body raw_request = Some j \<and> (\<forall>d. j \<noteq> JObj d)"
  then show "webhook E raw_request = ([], Inl AttributeError)"
    by (simp add: webhook_of_try webhook_try_before_match(2))
next
  fix d
  assume "body raw_request = Some (JObj d) \<and> headers raw_request ''X-GitHub-Event'' = None"
  then show "webhook E raw_request = ([], Inl AssertionError)"
    by (simp add: webhook_of_try webhook_try_before_match(3))
next
  show "snd (webhook E raw_request) = Inr success
       \<or> (snd (webhook E raw_request) = Inr pong \<and> fst (webhook E raw_request) = []
            \<and> headers raw_request ''X-GitHub-Event'' = Some ''ping'')
       \<or> (snd (webhook E raw_request) = Inl (HTTPException 422 ''Failed to parse request'')
            \<and> snd (webhook_try E raw_request) = Inl ValidationError)
       \<or> (\<exists>e. snd (webhook E raw_request) = Inl e \<and> snd (webhook_try E raw_request) = Inl e
            \<and> e \<noteq> ValidationError)"
  proof (cases "snd (webhook_try E raw_request)")
    case (Inl e)
    then show ?thesis by (simp add: webhook_of_try)
  next
    case (Inr v)
    show ?thesis
    proof (cases v)
      case None
      with Inr show ?thesis by (simp add: webhook_of_try)
    next
      case (Some x)
      with Inr webhook_try_Some [of E raw_request x] show ?thesis
        by (simp add: webhook_of_try)
    qed
  qed
qed

text \<open>
  An issues/labeled payload that fails validation gives the 422; a body that does not
  decode gives the decoder's exception; a ping gives pong.
\<close>

theorem webhook_outcomes_witness:
  "webhook ex_env ex_labeled = ([], Inl (HTTPException 422 ''Failed to parse request''))
   \<and> snd (webhook_try ex_env ex_labeled) = Inl ValidationError
   \<and> webhook ex_env ex_undecodable = ([], Inl JSONDecodeError)
   \<and> snd (webhook_try ex_env ex_undecodable) = Inl JSONDecodeError
   \<and> webhook ex_env ex_ping = ([], Inr pong)
   \<and> snd (webhook_try ex_env ex_ping) = Inr (Some pong)"
proof -
  have l: "snd (webhook_try ex_env ex_labeled) = Inl ValidationError"
    and l0: "fst (webhook_try ex_env ex_labeled) = []"
    by (simp_all add: webhook_try_def dispatch_def no_return_def case_issues_labeled_def
        ex_labeled_def ex_env_def dict_get_def io_raise_def)
  have u: "body ex_undecodable = None"
    by (simp add: ex_undecodable_def)
  have p: "snd (webhook_try ex_env ex_ping) = Inr (Some pong)"
    by (simp add: webhook_try_def dispatch_def ex_ping_def dict_get_def io_return_def)
  have u': "snd (webhook_try ex_env ex_undecodable) = Inl JSONDecodeError"
    by (simp add: webhook_try_def ex_undecodable_def io_raise_def)
  show ?thesis
    using webhook_outcomes [of ex_env ex_labeled, THEN conjunct1]
      webhook_outcomes [of ex_env ex_undecodable, THEN conjunct2, THEN conjunct2, THEN conjunct2,
        THEN conjunct2, THEN conjunct1]
      webhook_outcomes [of ex_env ex_ping, THEN conjunct2, THEN conjunct2, THEN conjunct1]
      l l0 u u' p
    by simp
qed

text \<open>
  Claim C3 as stated fails on a request without the \<^verbatim>\<open>X-GitHub-Event\<close> header:
  \<^verbatim>\<open>assert event is not None\<close> raises an \<^verbatim>\<open>AssertionError\<close>, which the
  \<^verbatim>\<open>except ValidationError\<close> clause does not catch.
\<close>

theorem missing_event_header_counterexample:
  "webhook ex_env ex_no_event = ([], Inl AssertionError)
   \<and> snd (webhook ex_env ex_no_event)
       \<notin> {Inr success, Inr pong, Inl (HTTPException 422 ''Failed to parse request'')}"
  by (simp add: webhook_def webhook_try_def ex_no_event_def io_raise_def)

subsection \<open>Forwarded descriptions\<close>

text \<open>
  The two ticket paths (issue labeled, issue comment) forward the body and the repository
  description after \<^verbatim>\<open>or ""\<close>: never \<^verbatim>\<open>None\<close>.
\<close>

lemma ticket_of_normalized:
  "arg_body (ticket_of (normalize_issue iss) (normalize_repository repo) inst cid)
     = Some (or_empty (issue_body iss))
   \<and> arg_description (ticket_of (normalize_issue iss) (normalize_repository repo) inst cid)
     = Some (or_empty (description repo))"
  by (simp add: ticket_of_def normalize_issue_def normalize_repository_def)

text \<open>
  Claim C4 does not hold on the comment paths. On a human's comment on a pull request of
  the bot, in a repository whose description is absent, \<^verbatim>\<open>handle_comment.spawn\<close>
  receives \<^verbatim>\<open>repo_description=None\<close>: the \<^verbatim>\<open>elif\<close> branch forwards
  \<^verbatim>\<open>request.repository.description\<close> as it came, without the \<^verbatim>\<open>or ""\<close> of the
  branch above it.
\<close>

theorem pr_comment_forwards_null_description:
  "description (repository ex_comment_request) = None
   \<and> validate_IssueCommentRequest ex_env ex_comment_dict = Some ex_comment_request
   \<and> webhook ex_env ex_pr_comment =
       ([Handle_comment_spawn
           \<lparr>repo_full_name = ''acme/widgets'', repo_description = None,
            comment_text = ''Please rename the helper'', pr_path = None,
            pr_line_position = None, username = ''alice'', installation_id = 7,
            pr_number = 12\<rparr>],
        Inr (JObj [(''success'', JBool True)]))"
  by (simp add: webhook_def webhook_try_def dispatch_def no_return_def
      case_issue_comment_created_def has_sweep_label_def ex_pr_comment_def ex_env_def
      ex_comment_request_def dict_get_def ex_comment_dict_def io_return_def success_def)

subsection \<open>Pull request closed\<close>

text \<open>
  Claim C9, as amended. Take a pull-request-closed event whose payload validates, names
  the merging user, has a repository full name of the form \<^verbatim>\<open>organization/name\<close> and
  carries \<^verbatim>\<open>repository.full_name\<close> and \<^verbatim>\<open>installation.id\<close>, with the external
  calls coming back. Then the index refresh is spawned whoever the authors are, and
  the analytics event is emitted if and only if the bot identity equals the login of the
  pull request's author (\<^verbatim>\<open>pull_request.user.login\<close>, the code's
  \<^verbatim>\<open>commit_author\<close>). The login of the merging user (\<^verbatim>\<open>merged_by\<close>) is the
  subject of the analytics event; it is not compared with the bot identity.
\<close>

theorem pull_request_closed_effects:
  assumes "headers raw_request ''X-GitHub-Event'' = Some ''pull_request''"
      and "body raw_request = Some (JObj request_dict)"
      and "dict_get request_dict ''action'' = JStr ''closed''"
      and "validate_PRRequest E request_dict = Some pr_request"
      and "split (full_name (pr_repository pr_request)) (CHR ''/'') = [organization, repo_name]"
      and "merged_by (pr_pull_request pr_request) = Some merger"
      and "subscript (JObj request_dict) ''repository'' = Inr r"
      and "subscript r ''full_name'' = Inr name"
      and "subscript (JObj request_dict) ''installation'' = Inr i"
      and "subscript i ''id'' = Inr iid"
      and "\<forall>x. raises E x = None"
  shows "webhook E raw_request =
           ((if SWEEP_LOGIN E = login (cp_user (pr_pull_request pr_request))
             then [Posthog_capture (login merger) ''merged_sweep_pr''
                     [(''repo_name'', PStr repo_name), (''organization'', PStr organization),
                      (''repo_full_name'', PStr (full_name (pr_repository pr_request))),
                      (''username'', PStr (login merger))]]
             else [])
            @ [Update_index_spawn name iid],
            Inr (JObj [(''success'', JBool True)]))"
proof -
  have u: "spawn_update_index E request_dict = ([Update_index_spawn name iid], Inr ())"
    using assms(7-11) by (simp add: spawn_update_index_ok)
  have c: "case_pull_request_closed E request_dict =
             ((if SWEEP_LOGIN E = login (cp_user (pr_pull_request pr_request))
               then [Posthog_capture (login merger) ''merged_sweep_pr''
                       [(''repo_name'', PStr repo_name), (''organization'', PStr organization),
                        (''repo_full_name'', PStr (full_name (pr_repository pr_request))),
                        (''username'', PStr (login merger))]]
               else [])
              @ [Update_index_spawn name iid], Inr ())"
    using assms(4-6,11) by (simp add: case_pull_request_closed_def unpack2_def u)
  have "dispatch E ''pull_request'' (JStr ''closed'') request_dict =
          no_return (case_pull_request_closed E request_dict)"
    by (simp add: dispatch_def)
  then show ?thesis
    using assms(1-3) by (simp add: webhook_def webhook_try_def c no_return_def io_return_def success_def)
qed

text \<open>A pull request of the bot, merged by alice.\<close>

theorem pull_request_closed_effects_witness:
  "webhook ex_env ex_pr_closed =
     ([Posthog_capture ''alice'' ''merged_sweep_pr''
         [(''repo_name'', PStr ''widgets''), (''organization'', PStr ''acme''),
          (''repo_full_name'', PStr ''acme/widgets''), (''username'', PStr ''alice'')],
       Update_index_spawn (JStr ''acme/widgets'') (JInt 7)],
      Inr (JObj [(''success'', JBool True)]))"
  using pull_request_closed_effects [of ex_pr_closed ex_closed_dict ex_env ex_pr_request
      "''acme''" "''widgets''" "\<lparr>login = ''alice'', user_type = ''User''\<rparr>"
      "JObj [(''full_name'', JStr ''acme/widgets''), (''description'', JNull)]"
      "JStr ''acme/widgets''" "JObj [(''id'', JInt 7)]" "JInt 7"]
  by (simp add: ex_pr_closed_def ex_env_def ex_pr_request_def dict_get_def subscript_def
      ex_closed_dict_def)

text \<open>
  Claim C9 as stated fails when a human merges a pull request of the bot: the merge
  author is alice, not the bot, and the analytics event is emitted all the same.
\<close>

theorem merged_by_human_counterexample:
  "map_option login (merged_by (pr_pull_request ex_pr_request)) = Some ''alice''
   \<and> ''alice'' \<noteq> SWEEP_LOGIN ex_env
   \<and> validate_PRRequest ex_env ex_closed_dict = Some ex_pr_request
   \<and> fst (webhook ex_env ex_pr_closed) =
       [Posthog_capture ''alice'' ''merged_sweep_pr''
          [(''repo_name'', PStr ''widgets''), (''organization'', PStr ''acme''),
           (''repo_full_name'', PStr ''acme/widgets''), (''username'', PStr ''alice'')],
        Update_index_spawn (JStr ''acme/widgets'') (JInt 7)]"
  by (simp add: webhook_def webhook_try_def dispatch_def no_return_def case_pull_request_closed_def
      spawn_update_index_def unpack2_def ex_pr_closed_def ex_env_def ex_pr_request_def
      dict_get_def subscript_def ex_closed_dict_def io_return_def)

end
